theory Spec2Isabelle
  imports Main "HOL-Library.AList"
begin

section \<open>Python values, dictionaries and exceptions\<close>

text \<open>
  The values that travel between the service and the table client are JSON-like Python
  values. A Python \<^verbatim>\<open>dict\<close> with string keys is an association list; every operation
  on it below goes through \<^const>\<open>map_of\<close>, \<^const>\<open>AList.update\<close> and
  \<^const>\<open>AList.delete\<close>, so a key is looked up, overwritten in place (or appended when
  new) and removed exactly as Python does it. Floating point numbers are left out: no
  field of the record is a float.
\<close>

datatype pyval =
    PNone
  | PBool bool
  | PInt int
  | PStr string
  | PList "pyval list"
  | PDict "(string \<times> pyval) list"

type_synonym pydict = "(string \<times> pyval) list"

text \<open>Python's truth value of an object, as \<^verbatim>\<open>if x\<close>, \<^verbatim>\<open>x or y\<close> and \<^verbatim>\<open>not x\<close> test it.\<close>

fun truthy :: "pyval \<Rightarrow> bool" where
  "truthy PNone = False"
| "truthy (PBool b) = b"
| "truthy (PInt i) = (i \<noteq> 0)"
| "truthy (PStr s) = (s \<noteq> [])"
| "truthy (PList vs) = (vs \<noteq> [])"
| "truthy (PDict d) = (d \<noteq> [])"

text \<open>\<^verbatim>\<open>isinstance(v, dict)\<close>\<close>

fun isinstance_dict :: "pyval \<Rightarrow> bool" where
  "isinstance_dict (PDict d) = True"
| "isinstance_dict v = False"

text \<open>\<^verbatim>\<open>d.get(k)\<close>: the value, or \<^verbatim>\<open>None\<close> when the key is absent.\<close>

definition dict_get :: "pydict \<Rightarrow> string \<Rightarrow> pyval" where
  "dict_get d k = (case map_of d k of None \<Rightarrow> PNone | Some v \<Rightarrow> v)"

text \<open>\<^verbatim>\<open>d.pop(k, default)\<close>: the value and the dictionary without the key.\<close>

definition dict_pop :: "pydict \<Rightarrow> string \<Rightarrow> pyval \<Rightarrow> pyval \<times> pydict" where
  "dict_pop d k dflt =
     (case map_of d k of None \<Rightarrow> (dflt, d) | Some v \<Rightarrow> (v, AList.delete k d))"

text \<open>\<^verbatim>\<open>d[k] = v\<close>\<close>

definition dict_set :: "pydict \<Rightarrow> string \<Rightarrow> pyval \<Rightarrow> pydict" where
  "dict_set d k v = AList.update k v d"

text \<open>
  \<^verbatim>\<open>v.get(k)\<close> on a value that \<^verbatim>\<open>isinstance(v, dict)\<close> has admitted; the source
  never calls it on anything else.
\<close>

fun pyval_get :: "pyval \<Rightarrow> string \<Rightarrow> pyval" where
  "pyval_get (PDict d) k = dict_get d k"
| "pyval_get v k = PNone"

text \<open>
  Exceptions. Three are subclasses of Python's \<^verbatim>\<open>Exception\<close>: the \<^verbatim>\<open>ValueError\<close> of
  the constructor, pydantic's \<^verbatim>\<open>ValidationError\<close>, and what the table client raises on
  a network failure or a rejection by the store; each carries its message, what
  \<^verbatim>\<open>str(e)\<close> returns. Three derive from \<^verbatim>\<open>BaseException\<close> only, so that
  \<^verbatim>\<open>except Exception\<close> does not catch them: \<^verbatim>\<open>KeyboardInterrupt\<close>, \<^verbatim>\<open>SystemExit\<close>
  and \<^verbatim>\<open>asyncio.CancelledError\<close>.
\<close>

datatype exn =
    ValueError string
  | ValidationError string
  | ClientError string
  | KeyboardInterrupt
  | SystemExit
  | CancelledError

text \<open>\<^verbatim>\<open>isinstance(e, Exception)\<close>\<close>

fun isinstance_Exception :: "exn \<Rightarrow> bool" where
  "isinstance_Exception (ValueError m) = True"
| "isinstance_Exception (ValidationError m) = True"
| "isinstance_Exception (ClientError m) = True"
| "isinstance_Exception KeyboardInterrupt = False"
| "isinstance_Exception SystemExit = False"
| "isinstance_Exception CancelledError = False"


text \<open>A computation that returns a value (\<open>Inr\<close>) or raises (\<open>Inl\<close>), and its sequencing.\<close>

definition bind_res :: "exn + 'a \<Rightarrow> ('a \<Rightarrow> exn + 'b) \<Rightarrow> exn + 'b" where
  "bind_res m f = (case m of Inl e \<Rightarrow> Inl e | Inr x \<Rightarrow> f x)"

text \<open>
  \<^verbatim>\<open>[f(x) for x in xs]\<close> where \<^verbatim>\<open>f\<close> may raise: the first exception ends the
  comprehension.
\<close>

fun traverse_res :: "('a \<Rightarrow> exn + 'b) \<Rightarrow> 'a list \<Rightarrow> exn + 'b list" where
  "traverse_res f [] = Inr []"
| "traverse_res f (x # xs) =
     bind_res (f x) (\<lambda>y. bind_res (traverse_res f xs) (\<lambda>ys. Inr (y # ys)))"

text \<open>
  \<^verbatim>\<open>try: body except Exception as e: return failure\<close>: for an exception of class
  \<^verbatim>\<open>Exception\<close> the handler logs and returns the failure indicator; any other
  exception is not caught and leaves the method.
\<close>

definition except_return :: "exn + 'a \<Rightarrow> 'a \<Rightarrow> exn + 'a" where
  "except_return body failure =
     (case body of
        Inl e \<Rightarrow> (if isinstance_Exception e then Inr failure else Inl e)
      | Inr v \<Rightarrow> Inr v)"

section \<open>The record model\<close>

text \<open>
  \<^verbatim>\<open>class OnePagerRecord(BaseModel)\<close>, field by field in the order of the source. The
  field \<^verbatim>\<open>id\<close> is \<open>id'\<close> here, since \<open>id\<close> is HOL's identity function.
\<close>

record OnePagerRecord =
  id' :: "int option"
  request_id :: string
  session_id :: "string option"
  company_name :: string
  website_url :: string
  status :: string
  generated_at :: string
  duration_ms :: int
  folder_title :: string
  base_path :: string
  container :: string
  pptx_filename :: string
  pptx_blob_url :: "string option"
  pptx_blob_path :: "string option"
  metadata_blob_url :: "string option"
  excel_provided :: bool
  excel_filename :: "string option"
  excel_size :: "int option"
  excel_blob_url :: "string option"
  excel_blob_path :: "string option"
  excel_blob_info :: "pydict option"
  sections_status :: "pydict option"
  sections_response :: "pydict option"
  section_sources :: "pydict option"
  product_images :: "string list option"
  products :: "pydict list option"
  company_logo :: "string option"
  azure_upload_ok :: bool
  azure_upload_error :: "string option"
  warnings :: "string list option"
  error_type :: "string option"
  error_message :: "string option"
  created_at :: "string option"
  updated_at :: "string option"

subsection \<open>\<^verbatim>\<open>model_dump\<close>\<close>

definition dump_optional :: "('a \<Rightarrow> pyval) \<Rightarrow> 'a option \<Rightarrow> pyval" where
  "dump_optional f v = (case v of None \<Rightarrow> PNone | Some x \<Rightarrow> f x)"

definition dump_str_list :: "string list \<Rightarrow> pyval" where
  "dump_str_list xs = PList (map PStr xs)"

definition dump_dict_list :: "pydict list \<Rightarrow> pyval" where
  "dump_dict_list ds = PList (map PDict ds)"

text \<open>\<^verbatim>\<open>record.model_dump()\<close>: every field, in declaration order.\<close>

definition model_dump :: "OnePagerRecord \<Rightarrow> pydict" where
  "model_dump r =
    [(''id'', dump_optional PInt (id' r)),
     (''request_id'', PStr (request_id r)),
     (''session_id'', dump_optional PStr (session_id r)),
     (''company_name'', PStr (company_name r)),
     (''website_url'', PStr (website_url r)),
     (''status'', PStr (status r)),
     (''generated_at'', PStr (generated_at r)),
     (''duration_ms'', PInt (duration_ms r)),
     (''folder_title'', PStr (folder_title r)),
     (''base_path'', PStr (base_path r)),
     (''container'', PStr (container r)),
     (''pptx_filename'', PStr (pptx_filename r)),
     (''pptx_blob_url'', dump_optional PStr (pptx_blob_url r)),
     (''pptx_blob_path'', dump_optional PStr (pptx_blob_path r)),
     (''metadata_blob_url'', dump_optional PStr (metadata_blob_url r)),
     (''excel_provided'', PBool (excel_provided r)),
     (''excel_filename'', dump_optional PStr (excel_filename r)),
     (''excel_size'', dump_optional PInt (excel_size r)),
     (''excel_blob_url'', dump_optional PStr (excel_blob_url r)),
     (''excel_blob_path'', dump_optional PStr (excel_blob_path r)),
     (''excel_blob_info'', dump_optional PDict (excel_blob_info r)),
     (''sections_status'', dump_optional PDict (sections_status r)),
     (''sections_response'', dump_optional PDict (sections_response r)),
     (''section_sources'', dump_optional PDict (section_sources r)),
     (''product_images'', dump_optional dump_str_list (product_images r)),
     (''products'', dump_optional dump_dict_list (products r)),
     (''company_logo'', dump_optional PStr (company_logo r)),
     (''azure_upload_ok'', PBool (azure_upload_ok r)),
     (''azure_upload_error'', dump_optional PStr (azure_upload_error r)),
     (''warnings'', dump_optional dump_str_list (warnings r)),
     (''error_type'', dump_optional PStr (error_type r)),
     (''error_message'', dump_optional PStr (error_message r)),
     (''created_at'', dump_optional PStr (created_at r)),
     (''updated_at'', dump_optional PStr (updated_at r))]"

text \<open>\<^verbatim>\<open>record.model_dump(exclude={...})\<close>\<close>

definition model_dump_exclude :: "string list \<Rightarrow> OnePagerRecord \<Rightarrow> pydict" where
  "model_dump_exclude exclude r = filter (\<lambda>(k, v). k \<notin> set exclude) (model_dump r)"

subsection \<open>Validation: \<^verbatim>\<open>OnePagerRecord(**row)\<close>\<close>

text \<open>
  The constructor of a pydantic model validates every declared field of the keyword
  arguments against its annotation and raises \<^verbatim>\<open>ValidationError\<close> otherwise; a key
  that is no field is ignored, an absent field takes its default, and an absent field
  without default is an error. A field accepts the values of its annotated type
  (\<^verbatim>\<open>Optional[T]\<close>: also \<^verbatim>\<open>None\<close>), and validation is pydantic's default, lax
  one, which converts between scalar types: an \<^verbatim>\<open>int\<close> field takes a \<^verbatim>\<open>bool\<close>
  (\<^verbatim>\<open>True\<close> is 1) and a string of decimal digits with an optional sign (\<^verbatim>\<open>"15"\<close> is
  15); a \<^verbatim>\<open>bool\<close> field takes the integers 0 and 1 and the strings \<^verbatim>\<open>0, off, f,
  false, n, no, 1, on, t, true, y, yes\<close> in any case. A \<^verbatim>\<open>str\<close> field takes strings
  only, a \<^verbatim>\<open>Dict\<close> field dictionaries only, a \<^verbatim>\<open>List\<close> field lists. Other spellings
  of a number that pydantic may accept (surrounding blanks, underscores, a fraction of
  zero) are rejected here.
\<close>

fun val_str :: "pyval \<Rightarrow> exn + string" where
  "val_str (PStr s) = Inr s"
| "val_str v = Inl (ValidationError ''Input should be a valid string'')"

text \<open>The value of a string of decimal digits, with an optional sign.\<close>

definition digit_of :: "char \<Rightarrow> nat option" where
  "digit_of c =
     (let n = (of_char c :: nat) in if 48 \<le> n \<and> n \<le> 57 then Some (n - 48) else None)"

fun digits_value :: "nat \<Rightarrow> string \<Rightarrow> nat option" where
  "digits_value acc [] = Some acc"
| "digits_value acc (c # cs) =
     (case digit_of c of None \<Rightarrow> None | Some d \<Rightarrow> digits_value (10 * acc + d) cs)"

definition int_of_str :: "string \<Rightarrow> int option" where
  "int_of_str s =
     (case s of
        [] \<Rightarrow> None
      | c # cs \<Rightarrow>
          if c = CHR ''-'' then (if cs = [] then None
                                else map_option (\<lambda>n. - int n) (digits_value 0 cs))
          else if c = CHR ''+'' then (if cs = [] then None
                                     else map_option int (digits_value 0 cs))
          else map_option int (digits_value 0 s))"

fun val_int :: "pyval \<Rightarrow> exn + int" where
  "val_int (PInt i) = Inr i"
| "val_int (PBool b) = Inr (if b then 1 else 0)"
| "val_int (PStr s) =
     (case int_of_str s of
        Some i \<Rightarrow> Inr i
      | None \<Rightarrow> Inl (ValidationError ''Input should be a valid integer''))"
| "val_int v = Inl (ValidationError ''Input should be a valid integer'')"

text \<open>The truth value of a string, whatever the case of its letters.\<close>

definition ascii_lower :: "char \<Rightarrow> char" where
  "ascii_lower c =
     (let n = (of_char c :: nat) in if 65 \<le> n \<and> n \<le> 90 then char_of (n + 32) else c)"

definition bool_of_str :: "string \<Rightarrow> bool option" where
  "bool_of_str s =
     (let l = map ascii_lower s
      in if l \<in> set [''1'', ''on'', ''t'', ''true'', ''y'', ''yes''] then Some True
         else if l \<in> set [''0'', ''off'', ''f'', ''false'', ''n'', ''no''] then Some False
         else None)"

fun val_bool :: "pyval \<Rightarrow> exn + bool" where
  "val_bool (PBool b) = Inr b"
| "val_bool (PInt i) =
     (if i = 0 then Inr False else if i = 1 then Inr True
      else Inl (ValidationError ''Input should be a valid boolean''))"
| "val_bool (PStr s) =
     (case bool_of_str s of
        Some b \<Rightarrow> Inr b
      | None \<Rightarrow> Inl (ValidationError ''Input should be a valid boolean''))"
| "val_bool v = Inl (ValidationError ''Input should be a valid boolean'')"

fun val_dict :: "pyval \<Rightarrow> exn + pydict" where
  "val_dict (PDict d) = Inr d"
| "val_dict v = Inl (ValidationError ''Input should be a valid dictionary'')"

fun val_list :: "(pyval \<Rightarrow> exn + 'a) \<Rightarrow> pyval \<Rightarrow> exn + 'a list" where
  "val_list f (PList vs) = traverse_res f vs"
| "val_list f v = Inl (ValidationError ''Input should be a valid list'')"

fun val_optional :: "(pyval \<Rightarrow> exn + 'a) \<Rightarrow> pyval \<Rightarrow> exn + 'a option" where
  "val_optional f PNone = Inr None"
| "val_optional f v = bind_res (f v) (\<lambda>x. Inr (Some x))"

text \<open>A field without a default, and a field with one.\<close>

definition field_required :: "pydict \<Rightarrow> string \<Rightarrow> (pyval \<Rightarrow> exn + 'a) \<Rightarrow> exn + 'a" where
  "field_required row k f =
     (case map_of row k of None \<Rightarrow> Inl (ValidationError ''Field required'') | Some v \<Rightarrow> f v)"

definition field_default :: "pydict \<Rightarrow> string \<Rightarrow> 'a \<Rightarrow> (pyval \<Rightarrow> exn + 'a) \<Rightarrow> exn + 'a" where
  "field_default row k dflt f = (case map_of row k of None \<Rightarrow> Inr dflt | Some v \<Rightarrow> f v)"

definition new_OnePagerRecord :: "pydict \<Rightarrow> exn + OnePagerRecord" where
  "new_OnePagerRecord row =
    bind_res (field_default row ''id'' None (val_optional val_int)) (\<lambda>v_id.
    bind_res (field_required row ''request_id'' val_str) (\<lambda>v_request_id.
    bind_res (field_default row ''session_id'' None (val_optional val_str)) (\<lambda>v_session_id.
    bind_res (field_required row ''company_name'' val_str) (\<lambda>v_company_name.
    bind_res (field_required row ''website_url'' val_str) (\<lambda>v_website_url.
    bind_res (field_required row ''status'' val_str) (\<lambda>v_status.
    bind_res (field_required row ''generated_at'' val_str) (\<lambda>v_generated_at.
    bind_res (field_required row ''duration_ms'' val_int) (\<lambda>v_duration_ms.
    bind_res (field_required row ''folder_title'' val_str) (\<lambda>v_folder_title.
    bind_res (field_required row ''base_path'' val_str) (\<lambda>v_base_path.
    bind_res (field_required row ''container'' val_str) (\<lambda>v_container.
    bind_res (field_required row ''pptx_filename'' val_str) (\<lambda>v_pptx_filename.
    bind_res (field_default row ''pptx_blob_url'' None (val_optional val_str)) (\<lambda>v_pptx_blob_url.
    bind_res (field_default row ''pptx_blob_path'' None (val_optional val_str)) (\<lambda>v_pptx_blob_path.
    bind_res (field_default row ''metadata_blob_url'' None (val_optional val_str)) (\<lambda>v_metadata_blob_url.
    bind_res (field_default row ''excel_provided'' False val_bool) (\<lambda>v_excel_provided.
    bind_res (field_default row ''excel_filename'' None (val_optional val_str)) (\<lambda>v_excel_filename.
    bind_res (field_default row ''excel_size'' None (val_optional val_int)) (\<lambda>v_excel_size.
    bind_res (field_default row ''excel_blob_url'' None (val_optional val_str)) (\<lambda>v_excel_blob_url.
    bind_res (field_default row ''excel_blob_path'' None (val_optional val_str)) (\<lambda>v_excel_blob_path.
    bind_res (field_default row ''excel_blob_info'' None (val_optional val_dict)) (\<lambda>v_excel_blob_info.
    bind_res (field_default row ''sections_status'' None (val_optional val_dict)) (\<lambda>v_sections_status.
    bind_res (field_default row ''sections_response'' None (val_optional val_dict)) (\<lambda>v_sections_response.
    bind_res (field_default row ''section_sources'' None (val_optional val_dict)) (\<lambda>v_section_sources.
    bind_res (field_default row ''product_images'' None (val_optional (val_list val_str))) (\<lambda>v_product_images.
    bind_res (field_default row ''products'' None (val_optional (val_list val_dict))) (\<lambda>v_products.
    bind_res (field_default row ''company_logo'' None (val_optional val_str)) (\<lambda>v_company_logo.
    bind_res (field_default row ''azure_upload_ok'' False val_bool) (\<lambda>v_azure_upload_ok.
    bind_res (field_default row ''azure_upload_error'' None (val_optional val_str)) (\<lambda>v_azure_upload_error.
    bind_res (field_default row ''warnings'' None (val_optional (val_list val_str))) (\<lambda>v_warnings.
    bind_res (field_default row ''error_type'' None (val_optional val_str)) (\<lambda>v_error_type.
    bind_res (field_default row ''error_message'' None (val_optional val_str)) (\<lambda>v_error_message.
    bind_res (field_default row ''created_at'' None (val_optional val_str)) (\<lambda>v_created_at.
    bind_res (field_default row ''updated_at'' None (val_optional val_str)) (\<lambda>v_updated_at.
    Inr \<lparr> id' = v_id, request_id = v_request_id, session_id = v_session_id,
          company_name = v_company_name, website_url = v_website_url, status = v_status,
          generated_at = v_generated_at, duration_ms = v_duration_ms,
          folder_title = v_folder_title, base_path = v_base_path, container = v_container,
          pptx_filename = v_pptx_filename, pptx_blob_url = v_pptx_blob_url,
          pptx_blob_path = v_pptx_blob_path, metadata_blob_url = v_metadata_blob_url,
          excel_provided = v_excel_provided, excel_filename = v_excel_filename,
          excel_size = v_excel_size, excel_blob_url = v_excel_blob_url,
          excel_blob_path = v_excel_blob_path, excel_blob_info = v_excel_blob_info,
          sections_status = v_sections_status, sections_response = v_sections_response,
          section_sources = v_section_sources, product_images = v_product_images,
          products = v_products, company_logo = v_company_logo,
          azure_upload_ok = v_azure_upload_ok, azure_upload_error = v_azure_upload_error,
          warnings = v_warnings, error_type = v_error_type, error_message = v_error_message,
          created_at = v_created_at, updated_at = v_updated_at \<rparr>
    ))))))))))))))))))))))))))))))))))"

section \<open>The translation between record and row\<close>

text \<open>
  \<^verbatim>\<open>DatabaseService._prepare_record_for_db\<close> and \<^verbatim>\<open>_extract_record_from_db\<close> (an
  Isabelle name cannot start with an underscore). Each assignment to \<^verbatim>\<open>data\<close> of the
  source is a new binding of \<open>data\<close> here.
\<close>

definition prepare_record_for_db :: "OnePagerRecord \<Rightarrow> pydict" where
  "prepare_record_for_db record_data =
    (let data = model_dump_exclude [''id'', ''created_at'', ''updated_at''] record_data;
         (excel_blob_url, data) = dict_pop data ''excel_blob_url'' PNone;
         (excel_blob_path, data) = dict_pop data ''excel_blob_path'' PNone
     in if truthy excel_blob_url \<or> truthy excel_blob_path
        then dict_set data ''excel_blob_info''
               (PDict [(''excel_blob_url'', excel_blob_url),
                       (''excel_blob_path'', excel_blob_path)])
        else dict_set data ''excel_blob_info'' PNone)"

definition extract_record_from_db :: "pydict \<Rightarrow> exn + OnePagerRecord" where
  "extract_record_from_db db_record =
    (let db_record =
       (if truthy (dict_get db_record ''excel_blob_info'')
           \<and> isinstance_dict (dict_get db_record ''excel_blob_info'')
        then
          (let db_record = dict_set db_record ''excel_blob_url''
                 (pyval_get (dict_get db_record ''excel_blob_info'') ''excel_blob_url'')
           in dict_set db_record ''excel_blob_path''
                 (pyval_get (dict_get db_record ''excel_blob_info'') ''excel_blob_path''))
        else
          (let db_record = dict_set db_record ''excel_blob_url'' PNone
           in dict_set db_record ''excel_blob_path'' PNone))
     in new_OnePagerRecord db_record)"

section \<open>The table client\<close>

text \<open>
  The service talks to the store through the client's query builder:
  \<^verbatim>\<open>client.table(t)\<close>, then \<^verbatim>\<open>insert(data)\<close>, \<^verbatim>\<open>update(data)\<close>, \<^verbatim>\<open>select('*')\<close> or
  \<^verbatim>\<open>delete()\<close>, then any of \<^verbatim>\<open>eq(column, value)\<close>, \<^verbatim>\<open>order(column, desc=...)\<close>,
  \<^verbatim>\<open>limit(n)\<close>, then \<^verbatim>\<open>execute()\<close>. A query is the record of what the builder was
  told.
\<close>

datatype verb = Insert pydict | Update pydict | Select string | Delete

record query =
  table :: string
  verb :: verb
  filters :: "(string \<times> pyval) list"
  order_by :: "(string \<times> bool) option"
  limit_to :: "int option"

definition table_q :: "string \<Rightarrow> verb \<Rightarrow> query" where
  "table_q t v = \<lparr> table = t, verb = v, filters = [], order_by = None, limit_to = None \<rparr>"

definition eq_q :: "query \<Rightarrow> string \<Rightarrow> pyval \<Rightarrow> query" where
  "eq_q q column v = q\<lparr> filters := filters q @ [(column, v)] \<rparr>"



text \<open>
  \<^verbatim>\<open>execute()\<close> is the client's: on a store in state \<open>'db\<close> it raises or returns
  \<^verbatim>\<open>result.data\<close>, a list of rows, and leaves the store in a new state. The client is a
  parameter of the service, as it is an attribute of the object in the source.
\<close>

type_synonym 'db client = "query \<Rightarrow> 'db \<Rightarrow> (exn + pydict list) \<times> 'db"

record 'db DatabaseService =
  supabase_url :: string
  supabase_key :: string
  client :: "'db client"

section \<open>The service\<close>

subsection \<open>The constructor\<close>


subsection \<open>The operations\<close>

text \<open>
  Every operation takes the service, its arguments and the state of the store, and returns
  what the caller sees (\<open>Inl\<close>: an exception leaves the method) with the store's new
  state. \<open>now\<close> is \<^verbatim>\<open>datetime.utcnow().isoformat()\<close> at the call;
  \<^verbatim>\<open>get_recent_one_pager_records\<close> takes its limit as an argument (the source's
  default is 100). Logging is not modelled, and neither is the effect of
  \<^verbatim>\<open>update_data.pop\<close> on the caller's own dictionary.
\<close>

definition create_one_pager_record ::
  "'db DatabaseService \<Rightarrow> string \<Rightarrow> OnePagerRecord \<Rightarrow> 'db
     \<Rightarrow> (exn + OnePagerRecord option) \<times> 'db" where
  "create_one_pager_record self now record_data db =
    (let data = prepare_record_for_db record_data;
         data = dict_set data ''created_at'' (PStr now);
         data = dict_set data ''updated_at'' (PStr now);
         (result, db') = client self (table_q ''one_pager_reports'' (Insert data)) db
     in (except_return
           (bind_res result (\<lambda>result_data.
              if result_data \<noteq> []
              then bind_res (extract_record_from_db (hd result_data))
                     (\<lambda>created_record. Inr (Some created_record))
              else Inr None))
           None, db'))"

definition update_one_pager_record ::
  "'db DatabaseService \<Rightarrow> string \<Rightarrow> int \<Rightarrow> pydict \<Rightarrow> 'db
     \<Rightarrow> (exn + OnePagerRecord option) \<times> 'db" where
  "update_one_pager_record self now record_id update_data db =
    (let (excel_blob_url, update_data) = dict_pop update_data ''excel_blob_url'' PNone;
         (excel_blob_path, update_data) = dict_pop update_data ''excel_blob_path'' PNone;
         update_data =
           (if truthy excel_blob_url \<or> truthy excel_blob_path
            then dict_set update_data ''excel_blob_info''
                   (PDict [(''excel_blob_url'', excel_blob_url),
                           (''excel_blob_path'', excel_blob_path)])
            else dict_set update_data ''excel_blob_info'' PNone);
         update_data = dict_set update_data ''updated_at'' (PStr now);
         (result, db') =
           client self
             (eq_q (table_q ''one_pager_reports'' (Update update_data)) ''id'' (PInt record_id))
             db
     in (except_return
           (bind_res result (\<lambda>result_data.
              if result_data \<noteq> []
              then bind_res (extract_record_from_db (hd result_data))
                     (\<lambda>updated_record. Inr (Some updated_record))
              else Inr None))
           None, db'))"

definition get_one_pager_record ::
  "'db DatabaseService \<Rightarrow> int \<Rightarrow> 'db \<Rightarrow> (exn + OnePagerRecord option) \<times> 'db" where
  "get_one_pager_record self record_id db =
    (let (result, db') =
           client self
             (eq_q (table_q ''one_pager_reports'' (Select ''*'')) ''id'' (PInt record_id)) db
     in (except_return
           (bind_res result (\<lambda>result_data.
              if result_data \<noteq> []
              then bind_res (extract_record_from_db (hd result_data)) (\<lambda>r. Inr (Some r))
              else Inr None))
           None, db'))"






definition update_one_pager_record_atomic ::
  "'db DatabaseService \<Rightarrow> string \<Rightarrow> int \<Rightarrow> pydict \<Rightarrow> string option \<Rightarrow> 'db
     \<Rightarrow> (exn + OnePagerRecord option) \<times> 'db" where
  "update_one_pager_record_atomic self now record_id update_data expected_status db =
    (let (excel_blob_url, update_data) = dict_pop update_data ''excel_blob_url'' PNone;
         (excel_blob_path, update_data) = dict_pop update_data ''excel_blob_path'' PNone;
         update_data =
           (if truthy excel_blob_url \<or> truthy excel_blob_path
            then dict_set update_data ''excel_blob_info''
                   (PDict [(''excel_blob_url'', excel_blob_url),
                           (''excel_blob_path'', excel_blob_path)])
            else dict_set update_data ''excel_blob_info'' PNone);
         update_data = dict_set update_data ''updated_at'' (PStr now);
         query = eq_q (table_q ''one_pager_reports'' (Update update_data))
                   ''id'' (PInt record_id);
         query = (case expected_status of
                    Some s \<Rightarrow> eq_q query ''status'' (PStr s)
                  | None \<Rightarrow> query);
         (result, db') = client self query db
     in (except_return
           (bind_res result (\<lambda>result_data.
              if result_data \<noteq> []
              then bind_res (extract_record_from_db (hd result_data))
                     (\<lambda>updated_record. Inr (Some updated_record))
              else Inr None))
           None, db'))"


section \<open>A reference store\<close>

text \<open>
  The service is written against a hosted table that it reaches through its client. The
  state of that table here: its rows, and the next value of the sequence that numbers
  them.
\<close>

record table_db =
  rows :: "pydict list"
  next_id :: int

definition matches :: "(string \<times> pyval) list \<Rightarrow> pydict \<Rightarrow> bool" where
  "matches fs row = list_all (\<lambda>(k, v). map_of row k = Some v) fs"

text \<open>The order of a column: strings by their characters' codes, numbers by value, null last.\<close>

fun str_less :: "string \<Rightarrow> string \<Rightarrow> bool" where
  "str_less [] [] = False"
| "str_less [] (y # ys) = True"
| "str_less (x # xs) [] = False"
| "str_less (x # xs) (y # ys) =
     ((of_char x :: nat) < of_char y \<or> (x = y \<and> str_less xs ys))"

fun col_less :: "pyval \<Rightarrow> pyval \<Rightarrow> bool" where
  "col_less (PStr a) (PStr b) = str_less a b"
| "col_less (PInt a) (PInt b) = (a < b)"
| "col_less PNone v = False"
| "col_less v PNone = True"
| "col_less v w = False"

fun insert_row :: "(pydict \<Rightarrow> pydict \<Rightarrow> bool) \<Rightarrow> pydict \<Rightarrow> pydict list \<Rightarrow> pydict list" where
  "insert_row precedes r [] = [r]"
| "insert_row precedes r (x # xs) =
     (if precedes x r then x # insert_row precedes r xs else r # x # xs)"

definition order_rows :: "(string \<times> bool) option \<Rightarrow> pydict list \<Rightarrow> pydict list" where
  "order_rows ob rs =
     (case ob of
        None \<Rightarrow> rs
      | Some (column, desc) \<Rightarrow>
          foldr (insert_row (\<lambda>a b. if desc then col_less (dict_get b column) (dict_get a column)
                                    else col_less (dict_get a column) (dict_get b column)))
            rs [])"

definition limit_rows :: "int option \<Rightarrow> pydict list \<Rightarrow> pydict list" where
  "limit_rows l rs = (case l of None \<Rightarrow> rs | Some n \<Rightarrow> take (nat n) rs)"

text \<open>
  Modelled from the spec: \<^verbatim>\<open>execute()\<close> of the client on the hosted table (``a remote
  table-oriented data store'' reached through a ``TableClient capability (connect,
  select, insert, update, delete, filter, order, limit)''), which is not in the
  repository. This is the table as the spec describes it: one table
  \<^verbatim>\<open>one_pager_reports\<close> whose \<^verbatim>\<open>id\<close> is a store-assigned auto-increment key; an insert returns the inserted row; an update
  applies the given columns to every row that matches all the filters, in one step, and
  returns the updated rows; a select returns the matching rows, ordered and limited as
  asked; a delete removes the matching rows and returns them. The store checks no column
  type: it keeps what it is given.
\<close>

definition mem_execute :: "table_db client" where
  "mem_execute q db =
    (if table q \<noteq> ''one_pager_reports''
     then (Inl (ClientError ''relation does not exist''), db)
     else
       (case verb q of
          Insert data \<Rightarrow>
            (case map_of data ''id'' of
               None \<Rightarrow>
                 (let row = dict_set data ''id'' (PInt (next_id db))
                  in (Inr [row], db\<lparr> rows := rows db @ [row], next_id := next_id db + 1 \<rparr>))
             | Some v \<Rightarrow> (Inr [data], db\<lparr> rows := rows db @ [data] \<rparr>))
        | Update data \<Rightarrow>
            (Inr (map (\<lambda>r. AList.merge r data) (filter (matches (filters q)) (rows db))),
             db\<lparr> rows := map (\<lambda>r. if matches (filters q) r then AList.merge r data else r)
                             (rows db) \<rparr>)
        | Select columns \<Rightarrow>
            (Inr (limit_rows (limit_to q)
                    (order_rows (order_by q) (filter (matches (filters q)) (rows db)))),
             db)
        | Delete \<Rightarrow>
            (Inr (filter (matches (filters q)) (rows db)),
             db\<lparr> rows := filter (\<lambda>r. \<not> matches (filters q) r) (rows db) \<rparr>)))"

text \<open>The service on the reference store.\<close>

definition mem_service :: "table_db DatabaseService" where
  "mem_service = \<lparr> supabase_url = ''https://store.example'', supabase_key = ''anon'',
                   client = mem_execute \<rparr>"

text \<open>Every id of the table was handed out by the sequence.\<close>

definition wf_db :: "table_db \<Rightarrow> bool" where
  "wf_db db =
     list_all (\<lambda>r. case map_of r ''id'' of Some (PInt i) \<Rightarrow> i < next_id db | _ \<Rightarrow> True)
       (rows db)"

section \<open>Notions the theorems are stated with\<close>

text \<open>
  The field set that \<^verbatim>\<open>update_one_pager_record\<close> (lines 125--137 of the source) and
  \<^verbatim>\<open>update_one_pager_record_atomic\<close> (lines 243--255, the same statements) hand to the
  client's \<^verbatim>\<open>update\<close>, stated once. Both operations above spell these statements out
  themselves; the lemmas \<open>update_one_pager_record_sends\<close> and
  \<open>update_one_pager_record_atomic_sends\<close> show that this is what each one sends.
\<close>

definition update_fields :: "string \<Rightarrow> pydict \<Rightarrow> pydict" where
  "update_fields now update_data =
    (let (excel_blob_url, update_data) = dict_pop update_data ''excel_blob_url'' PNone;
         (excel_blob_path, update_data) = dict_pop update_data ''excel_blob_path'' PNone;
         update_data =
           (if truthy excel_blob_url \<or> truthy excel_blob_path
            then dict_set update_data ''excel_blob_info''
                   (PDict [(''excel_blob_url'', excel_blob_url),
                           (''excel_blob_path'', excel_blob_path)])
            else dict_set update_data ''excel_blob_info'' PNone)
     in dict_set update_data ''updated_at'' (PStr now))"

text \<open>
  What the caller gets from \<^verbatim>\<open>result.data\<close> in the operations that return one record:
  the \<^verbatim>\<open>if result.data and len(result.data) > 0\<close> branch inside the \<^verbatim>\<open>try\<close>.
\<close>

definition first_record :: "exn + pydict list \<Rightarrow> exn + OnePagerRecord option" where
  "first_record result =
     except_return
       (bind_res result (\<lambda>result_data.
          if result_data \<noteq> []
          then bind_res (extract_record_from_db (hd result_data)) (\<lambda>r. Inr (Some r))
          else Inr None))
       None"

text \<open>A computation that raises nothing but exceptions of class \<^verbatim>\<open>Exception\<close>.\<close>

definition raises_only_Exception :: "exn + 'a \<Rightarrow> bool" where
  "raises_only_Exception m = (case m of Inl e \<Rightarrow> isinstance_Exception e | Inr x \<Rightarrow> True)"


text \<open>
  A client that answers every query with the same response and keeps the queries it was
  sent: the state of this store is the list of the queries so far.
\<close>

definition recording_service :: "exn + pydict list \<Rightarrow> (query list) DatabaseService" where
  "recording_service response =
     \<lparr> supabase_url = ''https://store.example'', supabase_key = ''anon'',
       client = (\<lambda>q sent. (response, sent @ [q])) \<rparr>"

text \<open>The field set a write query carries.\<close>

definition written :: "query \<Rightarrow> pydict" where
  "written q = (case verb q of Insert data \<Rightarrow> data | Update data \<Rightarrow> data | _ \<Rightarrow> [])"

text \<open>
  The packing rule in the words of the spec: ``if either is non-empty, write both into a
  single structured column \<^verbatim>\<open>excel_blob_info = {excel_blob_url, excel_blob_path}\<close>;
  otherwise write that column as null''.
\<close>

definition spec_packing_rule :: "pyval \<Rightarrow> pyval \<Rightarrow> pyval" where
  "spec_packing_rule url path =
     (if truthy url \<or> truthy path
      then PDict [(''excel_blob_url'', url), (''excel_blob_path'', path)]
      else PNone)"

text \<open>
  The record of the repository's test script \<^verbatim>\<open>test_excel_blob.py\<close> (its two time
  stamps fixed), and variants of it.
\<close>

definition test_record :: OnePagerRecord where
  "test_record =
     \<lparr> id' = None, request_id = ''test_excel_20240101_000000'', session_id = None,
       company_name = ''Test Company Excel'', website_url = ''https://testcompany.com'',
       status = ''success'', generated_at = ''2024-01-01T00:00:00'', duration_ms = 15000,
       folder_title = ''test_excel_folder'', base_path = ''one-pagers/test_excel'',
       container = ''bynd-dev'', pptx_filename = ''test.pptx'',
       pptx_blob_url = Some ''https://example.com/test.pptx'',
       pptx_blob_path = Some ''one-pagers/test_excel/test.pptx'',
       metadata_blob_url = Some ''https://example.com/test_metadata.json'',
       excel_provided = True, excel_filename = Some ''test_data.xlsx'',
       excel_size = Some 50000,
       excel_blob_url = Some ''https://example.com/test_data.xlsx'',
       excel_blob_path = Some ''one-pagers/test_excel/excel/test_data.xlsx'',
       excel_blob_info = None,
       sections_status = Some [(''about'', PDict [(''ok'', PBool True)])],
       sections_response = Some [(''about'', PStr ''Test response'')],
       section_sources = Some [(''about'', PList [PStr ''https://testcompany.com/about''])],
       product_images = Some [''https://example.com/product1.jpg''],
       products = Some [[(''name'', PStr ''Test Product''), (''price'', PStr ''$99'')]],
       company_logo = Some ''https://example.com/logo.png'',
       azure_upload_ok = True, azure_upload_error = None,
       warnings = Some [''Test warning''], error_type = None, error_message = None,
       created_at = None, updated_at = None \<rparr>"

definition in_progress_record :: OnePagerRecord where
  "in_progress_record = test_record\<lparr> status := ''in-progress'' \<rparr>"

definition empty_db :: table_db where
  "empty_db = \<lparr> rows = [], next_id = 1 \<rparr>"

text \<open>The store after the in-progress record was created in the empty table.\<close>

definition one_row_db :: table_db where
  "one_row_db =
     snd (create_one_pager_record mem_service ''2024-01-01T00:00:01'' in_progress_record empty_db)"

text \<open>
  The row the reference store holds for a record created at time \<open>now\<close> under the id
  \<open>n\<close>, and the record \<^verbatim>\<open>create_one_pager_record\<close> returns for it: the caller's
  record with the three store-owned fields set and the excel pair as it reads back.
\<close>

definition stored_row :: "string \<Rightarrow> int \<Rightarrow> OnePagerRecord \<Rightarrow> pydict" where
  "stored_row now n r =
    prepare_record_for_db r @
      [(''created_at'', PStr now), (''updated_at'', PStr now), (''id'', PInt n)]"

definition persisted :: "string \<Rightarrow> int \<Rightarrow> OnePagerRecord \<Rightarrow> OnePagerRecord" where
  "persisted now n r =
    (if truthy (dump_optional PStr (excel_blob_url r)) \<or> truthy (dump_optional PStr (excel_blob_path r))
     then r\<lparr> id' := Some n, created_at := Some now, updated_at := Some now,
             excel_blob_info := Some [(''excel_blob_url'', dump_optional PStr (excel_blob_url r)),
                                      (''excel_blob_path'', dump_optional PStr (excel_blob_path r))] \<rparr>
     else r\<lparr> id' := Some n, created_at := Some now, updated_at := Some now,
             excel_blob_url := None, excel_blob_path := None, excel_blob_info := None \<rparr>)"

text \<open>
  A row with the required columns, an \<^verbatim>\<open>excel_blob_info\<close> column and nothing else, and
  the record its required columns and the defaults make.
\<close>

definition minimal_row :: "pyval \<Rightarrow> pydict" where
  "minimal_row info =
     [(''request_id'', PStr ''r1''), (''company_name'', PStr ''Acme''),
      (''website_url'', PStr ''https://acme.example''), (''status'', PStr ''in-progress''),
      (''generated_at'', PStr ''2024-01-01T00:00:00''), (''duration_ms'', PInt 0),
      (''folder_title'', PStr ''acme''), (''base_path'', PStr ''one-pagers/acme''),
      (''container'', PStr ''bynd-dev''), (''pptx_filename'', PStr ''acme.pptx''),
      (''excel_blob_info'', info)]"

definition minimal_record :: OnePagerRecord where
  "minimal_record =
     \<lparr> id' = None, request_id = ''r1'', session_id = None, company_name = ''Acme'',
       website_url = ''https://acme.example'', status = ''in-progress'',
       generated_at = ''2024-01-01T00:00:00'', duration_ms = 0, folder_title = ''acme'',
       base_path = ''one-pagers/acme'', container = ''bynd-dev'',
       pptx_filename = ''acme.pptx'', pptx_blob_url = None, pptx_blob_path = None,
       metadata_blob_url = None, excel_provided = False, excel_filename = None,
       excel_size = None, excel_blob_url = None, excel_blob_path = None,
       excel_blob_info = None, sections_status = None, sections_response = None,
       section_sources = None, product_images = None, products = None, company_logo = None,
       azure_upload_ok = False, azure_upload_error = None, warnings = None,
       error_type = None, error_message = None, created_at = None, updated_at = None \<rparr>"

section \<open>Lemmas on dictionaries, exceptions and validation\<close>

lemma bind_res_Inr [simp]: "bind_res (Inr x) f = f x"
  by (simp add: bind_res_def)

lemma bind_res_Inl [simp]: "bind_res (Inl e) f = Inl e"
  by (simp add: bind_res_def)

lemma bind_res_eq_Inr: "bind_res m f = Inr y \<longleftrightarrow> (\<exists>x. m = Inr x \<and> f x = Inr y)"
  by (cases m) simp_all

lemma except_return_Inl [simp]:
  "except_return (Inl e) d = (if isinstance_Exception e then Inr d else Inl e)"
  by (simp add: except_return_def)

lemma except_return_Inr [simp]: "except_return (Inr v) d = Inr v"
  by (simp add: except_return_def)

lemma bind_res_eq_Inl:
  "bind_res m f = Inl e \<longleftrightarrow> m = Inl e \<or> (\<exists>x. m = Inr x \<and> f x = Inl e)"
  by (cases m) simp_all

lemma raises_only_Exception_Inr [simp]: "raises_only_Exception (Inr x)"
  by (simp add: raises_only_Exception_def)

lemma raises_only_Exception_Inl [simp]:
  "raises_only_Exception (Inl e) = isinstance_Exception e"
  by (simp add: raises_only_Exception_def)

lemma raises_only_Exception_bind:
  assumes "raises_only_Exception m" and "\<And>x. raises_only_Exception (f x)"
  shows "raises_only_Exception (bind_res m f)"
  using assms by (cases m) simp_all


lemma map_of_dict_set: "map_of (dict_set d k v) = (map_of d)(k \<mapsto> v)"
  by (simp add: dict_set_def update_conv')

lemma dict_get_dict_set: "dict_get (dict_set d k v) k' = (if k' = k then v else dict_get d k')"
  by (simp add: dict_get_def map_of_dict_set)

lemma fst_dict_pop: "fst (dict_pop d k PNone) = dict_get d k"
  by (simp add: dict_pop_def dict_get_def split: option.splits)

lemma map_of_snd_dict_pop: "map_of (snd (dict_pop d k dflt)) = (map_of d)(k := None)"
  by (auto simp: dict_pop_def delete_conv' split: option.splits)

lemma dict_get_snd_dict_pop:
  "dict_get (snd (dict_pop d k dflt)) k' = (if k' = k then PNone else dict_get d k')"
  by (simp add: dict_get_def map_of_snd_dict_pop)

lemma map_of_update_fields:
  "map_of (update_fields now ud) =
     ((map_of ud)(''excel_blob_url'' := None, ''excel_blob_path'' := None))
       (''excel_blob_info'' \<mapsto>
          spec_packing_rule (dict_get ud ''excel_blob_url'') (dict_get ud ''excel_blob_path''),
        ''updated_at'' \<mapsto> PStr now)"
proof -
  obtain u d1 where p1: "dict_pop ud ''excel_blob_url'' PNone = (u, d1)"
    by (cases "dict_pop ud ''excel_blob_url'' PNone")
  obtain p d2 where p2: "dict_pop d1 ''excel_blob_path'' PNone = (p, d2)"
    by (cases "dict_pop d1 ''excel_blob_path'' PNone")
  have u: "u = dict_get ud ''excel_blob_url''"
    using fst_dict_pop [of ud "''excel_blob_url''"] p1 by simp
  have d1: "map_of d1 = (map_of ud)(''excel_blob_url'' := None)"
    using map_of_snd_dict_pop [of ud "''excel_blob_url''" PNone] p1 by simp
  have p: "p = dict_get ud ''excel_blob_path''"
    using fst_dict_pop [of d1 "''excel_blob_path''"] p2 dict_get_snd_dict_pop [of ud "''excel_blob_url''" PNone "''excel_blob_path''"] p1
    by simp
  have d2: "map_of d2 = (map_of ud)(''excel_blob_url'' := None, ''excel_blob_path'' := None)"
    using map_of_snd_dict_pop [of d1 "''excel_blob_path''" PNone] p2 d1 by simp
  show ?thesis
    unfolding update_fields_def p1 p2 Let_def prod.case
    by (simp add: map_of_dict_set d2 u p spec_packing_rule_def)
qed

lemma update_one_pager_record_sends:
  "update_one_pager_record self now record_id update_data db =
     (let (result, db') =
            client self
              (eq_q (table_q ''one_pager_reports'' (Update (update_fields now update_data)))
                 ''id'' (PInt record_id)) db
      in (first_record result, db'))"
proof -
  obtain u d1 where p1: "dict_pop update_data ''excel_blob_url'' PNone = (u, d1)"
    by (cases "dict_pop update_data ''excel_blob_url'' PNone")
  obtain p d2 where p2: "dict_pop d1 ''excel_blob_path'' PNone = (p, d2)"
    by (cases "dict_pop d1 ''excel_blob_path'' PNone")
  show ?thesis
    unfolding update_one_pager_record_def update_fields_def first_record_def Let_def p1 p2
      prod.case
    by (rule refl)
qed

lemma update_one_pager_record_atomic_sends:
  "update_one_pager_record_atomic self now record_id update_data expected_status db =
     (let q = eq_q (table_q ''one_pager_reports'' (Update (update_fields now update_data)))
                ''id'' (PInt record_id);
          (result, db') =
            client self
              (case expected_status of Some s \<Rightarrow> eq_q q ''status'' (PStr s) | None \<Rightarrow> q) db
      in (first_record result, db'))"
proof -
  obtain u d1 where p1: "dict_pop update_data ''excel_blob_url'' PNone = (u, d1)"
    by (cases "dict_pop update_data ''excel_blob_url'' PNone")
  obtain p d2 where p2: "dict_pop d1 ''excel_blob_path'' PNone = (p, d2)"
    by (cases "dict_pop d1 ''excel_blob_path'' PNone")
  show ?thesis
    unfolding update_one_pager_record_atomic_def update_fields_def first_record_def Let_def
      p1 p2 prod.case
    by (cases expected_status) simp_all
qed

lemma prepare_record_for_db_eq:
  "prepare_record_for_db r =
    [(''request_id'', PStr (request_id r)),
     (''session_id'', dump_optional PStr (session_id r)),
     (''company_name'', PStr (company_name r)),
     (''website_url'', PStr (website_url r)),
     (''status'', PStr (status r)),
     (''generated_at'', PStr (generated_at r)),
     (''duration_ms'', PInt (duration_ms r)),
     (''folder_title'', PStr (folder_title r)),
     (''base_path'', PStr (base_path r)),
     (''container'', PStr (container r)),
     (''pptx_filename'', PStr (pptx_filename r)),
     (''pptx_blob_url'', dump_optional PStr (pptx_blob_url r)),
     (''pptx_blob_path'', dump_optional PStr (pptx_blob_path r)),
     (''metadata_blob_url'', dump_optional PStr (metadata_blob_url r)),
     (''excel_provided'', PBool (excel_provided r)),
     (''excel_filename'', dump_optional PStr (excel_filename r)),
     (''excel_size'', dump_optional PInt (excel_size r)),
     (''excel_blob_info'',
        spec_packing_rule (dump_optional PStr (excel_blob_url r))
          (dump_optional PStr (excel_blob_path r))),
     (''sections_status'', dump_optional PDict (sections_status r)),
     (''sections_response'', dump_optional PDict (sections_response r)),
     (''section_sources'', dump_optional PDict (section_sources r)),
     (''product_images'', dump_optional dump_str_list (product_images r)),
     (''products'', dump_optional dump_dict_list (products r)),
     (''company_logo'', dump_optional PStr (company_logo r)),
     (''azure_upload_ok'', PBool (azure_upload_ok r)),
     (''azure_upload_error'', dump_optional PStr (azure_upload_error r)),
     (''warnings'', dump_optional dump_str_list (warnings r)),
     (''error_type'', dump_optional PStr (error_type r)),
     (''error_message'', dump_optional PStr (error_message r))]"
  unfolding prepare_record_for_db_def model_dump_exclude_def model_dump_def
  by (simp add: dict_pop_def dict_set_def spec_packing_rule_def)


lemma val_optional_str_dump [simp]: "val_optional val_str (dump_optional PStr x) = Inr x"
  by (cases x) (simp_all add: dump_optional_def)

lemma val_optional_int_dump [simp]: "val_optional val_int (dump_optional PInt x) = Inr x"
  by (cases x) (simp_all add: dump_optional_def)

lemma val_optional_dict_dump [simp]: "val_optional val_dict (dump_optional PDict x) = Inr x"
  by (cases x) (simp_all add: dump_optional_def)

lemma traverse_val_str [simp]: "traverse_res val_str (map PStr xs) = Inr xs"
  by (induction xs) simp_all

lemma traverse_val_dict [simp]: "traverse_res val_dict (map PDict ds) = Inr ds"
  by (induction ds) simp_all

lemma val_optional_str_list_dump [simp]:
  "val_optional (val_list val_str) (dump_optional dump_str_list x) = Inr x"
  by (cases x) (simp_all add: dump_optional_def dump_str_list_def)

lemma val_optional_dict_list_dump [simp]:
  "val_optional (val_list val_dict) (dump_optional dump_dict_list x) = Inr x"
  by (cases x) (simp_all add: dump_optional_def dump_dict_list_def)

lemma new_OnePagerRecord_Inr_iff:
  "new_OnePagerRecord row = Inr r \<longleftrightarrow>
     (field_default row ''id'' None (val_optional val_int) = Inr (id' r) \<and>
      field_required row ''request_id'' val_str = Inr (request_id r) \<and>
      field_default row ''session_id'' None (val_optional val_str) = Inr (session_id r) \<and>
      field_required row ''company_name'' val_str = Inr (company_name r) \<and>
      field_required row ''website_url'' val_str = Inr (website_url r) \<and>
      field_required row ''status'' val_str = Inr (status r) \<and>
      field_required row ''generated_at'' val_str = Inr (generated_at r) \<and>
      field_required row ''duration_ms'' val_int = Inr (duration_ms r) \<and>
      field_required row ''folder_title'' val_str = Inr (folder_title r) \<and>
      field_required row ''base_path'' val_str = Inr (base_path r) \<and>
      field_required row ''container'' val_str = Inr (container r) \<and>
      field_required row ''pptx_filename'' val_str = Inr (pptx_filename r) \<and>
      field_default row ''pptx_blob_url'' None (val_optional val_str) = Inr (pptx_blob_url r) \<and>
      field_default row ''pptx_blob_path'' None (val_optional val_str) = Inr (pptx_blob_path r) \<and>
      field_default row ''metadata_blob_url'' None (val_optional val_str) = Inr (metadata_blob_url r) \<and>
      field_default row ''excel_provided'' False val_bool = Inr (excel_provided r) \<and>
      field_default row ''excel_filename'' None (val_optional val_str) = Inr (excel_filename r) \<and>
      field_default row ''excel_size'' None (val_optional val_int) = Inr (excel_size r) \<and>
      field_default row ''excel_blob_url'' None (val_optional val_str) = Inr (excel_blob_url r) \<and>
      field_default row ''excel_blob_path'' None (val_optional val_str) = Inr (excel_blob_path r) \<and>
      field_default row ''excel_blob_info'' None (val_optional val_dict) = Inr (excel_blob_info r) \<and>
      field_default row ''sections_status'' None (val_optional val_dict) = Inr (sections_status r) \<and>
      field_default row ''sections_response'' None (val_optional val_dict) = Inr (sections_response r) \<and>
      field_default row ''section_sources'' None (val_optional val_dict) = Inr (section_sources r) \<and>
      field_default row ''product_images'' None (val_optional (val_list val_str)) = Inr (product_images r) \<and>
      field_default row ''products'' None (val_optional (val_list val_dict)) = Inr (products r) \<and>
      field_default row ''company_logo'' None (val_optional val_str) = Inr (company_logo r) \<and>
      field_default row ''azure_upload_ok'' False val_bool = Inr (azure_upload_ok r) \<and>
      field_default row ''azure_upload_error'' None (val_optional val_str) = Inr (azure_upload_error r) \<and>
      field_default row ''warnings'' None (val_optional (val_list val_str)) = Inr (warnings r) \<and>
      field_default row ''error_type'' None (val_optional val_str) = Inr (error_type r) \<and>
      field_default row ''error_message'' None (val_optional val_str) = Inr (error_message r) \<and>
      field_default row ''created_at'' None (val_optional val_str) = Inr (created_at r) \<and>
      field_default row ''updated_at'' None (val_optional val_str) = Inr (updated_at r))"
  (is "?L = ?R")
proof
  assume ?L
  then show ?R
    unfolding new_OnePagerRecord_def bind_res_eq_Inr
    by (elim exE conjE) (cases r, simp)
next
  assume ?R
  then show ?L
    unfolding new_OnePagerRecord_def
    by simp
qed


lemma extract_record_from_db_object:
  assumes "dict_get row ''excel_blob_info'' = PDict d" and "d \<noteq> []"
  shows "extract_record_from_db row =
     new_OnePagerRecord
       (dict_set (dict_set row ''excel_blob_url'' (dict_get d ''excel_blob_url''))
          ''excel_blob_path'' (dict_get d ''excel_blob_path''))"
  unfolding extract_record_from_db_def Let_def
  using assms by (simp add: dict_get_dict_set)

lemma extract_record_from_db_other:
  assumes "\<not> truthy (dict_get row ''excel_blob_info'')
           \<or> \<not> isinstance_dict (dict_get row ''excel_blob_info'')"
  shows "extract_record_from_db row =
     new_OnePagerRecord
       (dict_set (dict_set row ''excel_blob_url'' PNone) ''excel_blob_path'' PNone)"
  unfolding extract_record_from_db_def Let_def
  using assms by auto

lemma stored_row_info:
  "dict_get (stored_row now n r) ''excel_blob_info'' =
     spec_packing_rule (dump_optional PStr (excel_blob_url r))
       (dump_optional PStr (excel_blob_path r))"
  unfolding stored_row_def prepare_record_for_db_eq dict_get_def
  by simp

lemma stored_row_set_excel:
  "dict_set (dict_set (stored_row now n r) ''excel_blob_url'' u) ''excel_blob_path'' p =
     stored_row now n r @ [(''excel_blob_url'', u), (''excel_blob_path'', p)]"
  unfolding stored_row_def prepare_record_for_db_eq dict_set_def
  by simp

lemma extract_stored_row:
  "extract_record_from_db (stored_row now n r) = Inr (persisted now n r)"
proof (cases "truthy (dump_optional PStr (excel_blob_url r))
               \<or> truthy (dump_optional PStr (excel_blob_path r))")
  case True
  then have info: "dict_get (stored_row now n r) ''excel_blob_info'' =
      PDict [(''excel_blob_url'', dump_optional PStr (excel_blob_url r)),
             (''excel_blob_path'', dump_optional PStr (excel_blob_path r))]"
    by (simp add: stored_row_info spec_packing_rule_def)
  have ex: "extract_record_from_db (stored_row now n r) =
      new_OnePagerRecord (stored_row now n r @
         [(''excel_blob_url'', dump_optional PStr (excel_blob_url r)),
          (''excel_blob_path'', dump_optional PStr (excel_blob_path r))])"
    by (simp add: extract_record_from_db_object [OF info] stored_row_set_excel dict_get_def)
  show ?thesis
    unfolding ex new_OnePagerRecord_Inr_iff
    using True
    unfolding stored_row_def prepare_record_for_db_eq field_required_def field_default_def
      persisted_def spec_packing_rule_def
    by (intro conjI) simp_all
next
  case False
  then have info: "dict_get (stored_row now n r) ''excel_blob_info'' = PNone"
    by (simp add: stored_row_info spec_packing_rule_def)
  have ex: "extract_record_from_db (stored_row now n r) =
      new_OnePagerRecord (stored_row now n r @
         [(''excel_blob_url'', PNone), (''excel_blob_path'', PNone)])"
    by (simp add: extract_record_from_db_other info stored_row_set_excel)
  show ?thesis
    unfolding ex new_OnePagerRecord_Inr_iff
    using False
    unfolding stored_row_def prepare_record_for_db_eq field_required_def field_default_def
      persisted_def spec_packing_rule_def
    by (intro conjI) simp_all
qed

section \<open>The service on the reference store\<close>

lemma mem_execute_insert:
  assumes "map_of data ''id'' = None"
  shows "mem_execute (table_q ''one_pager_reports'' (Insert data)) db =
     (Inr [dict_set data ''id'' (PInt (next_id db))],
      db\<lparr> rows := rows db @ [dict_set data ''id'' (PInt (next_id db))],
          next_id := next_id db + 1 \<rparr>)"
  using assms by (simp add: mem_execute_def table_q_def Let_def)

lemma create_on_mem_store:
  "create_one_pager_record mem_service now r db =
     (Inr (Some (persisted now (next_id db) r)),
      db\<lparr> rows := rows db @ [stored_row now (next_id db) r], next_id := next_id db + 1 \<rparr>)"
proof -
  let ?data = "dict_set (dict_set (prepare_record_for_db r) ''created_at'' (PStr now))
                ''updated_at'' (PStr now)"
  have no_id: "map_of ?data ''id'' = None"
    unfolding prepare_record_for_db_eq by (simp add: map_of_dict_set)
  have row: "dict_set ?data ''id'' (PInt n) = stored_row now n r" for n
    unfolding prepare_record_for_db_eq stored_row_def dict_set_def by simp
  have client: "client mem_service = mem_execute"
    by (simp add: mem_service_def)
  show ?thesis
    unfolding create_one_pager_record_def Let_def client mem_execute_insert [OF no_id] row
    by (simp add: extract_stored_row)
qed

lemma matches_id: "matches [(''id'', v)] row \<longleftrightarrow> map_of row ''id'' = Some v"
  by (simp add: matches_def)

lemma wf_db_fresh:
  assumes "wf_db db"
  shows "filter (matches [(''id'', PInt (next_id db))]) (rows db) = []"
proof -
  have "\<not> matches [(''id'', PInt (next_id db))] row" if "row \<in> set (rows db)" for row
  proof
    assume "matches [(''id'', PInt (next_id db))] row"
    then have "map_of row ''id'' = Some (PInt (next_id db))"
      by (simp add: matches_id)
    moreover from assms that
    have "case map_of row ''id'' of Some (PInt i) \<Rightarrow> i < next_id db | _ \<Rightarrow> True"
      by (simp add: wf_db_def list_all_iff)
    ultimately show False by simp
  qed
  then show ?thesis by (simp add: filter_empty_conv)
qed

lemma get_on_mem_store:
  "get_one_pager_record mem_service i db =
     (first_record (Inr (filter (matches [(''id'', PInt i)]) (rows db))), db)"
  unfolding get_one_pager_record_def first_record_def
  by (simp add: mem_service_def mem_execute_def table_q_def eq_q_def limit_rows_def
      order_rows_def)

lemma stored_row_id: "map_of (stored_row now n r) ''id'' = Some (PInt n)"
  unfolding stored_row_def prepare_record_for_db_eq by simp

lemma get_after_create:
  assumes "wf_db db"
  shows "get_one_pager_record mem_service (next_id db)
           (snd (create_one_pager_record mem_service now r db)) =
         (Inr (Some (persisted now (next_id db) r)),
          snd (create_one_pager_record mem_service now r db))"
  by (simp add: create_on_mem_store get_on_mem_store wf_db_fresh [OF assms] matches_id
      stored_row_id first_record_def extract_stored_row)




lemma create_one_pager_record_sends:
  "create_one_pager_record self now r db =
     (let (result, db') =
            client self
              (table_q ''one_pager_reports''
                 (Insert (prepare_record_for_db r @
                    [(''created_at'', PStr now), (''updated_at'', PStr now)]))) db
      in (first_record result, db'))"
proof -
  have data: "dict_set (dict_set (prepare_record_for_db r) ''created_at'' (PStr now))
                ''updated_at'' (PStr now) =
              prepare_record_for_db r @ [(''created_at'', PStr now), (''updated_at'', PStr now)]"
    unfolding prepare_record_for_db_eq dict_set_def by simp
  show ?thesis
    unfolding create_one_pager_record_def first_record_def Let_def data by (rule refl)
qed

lemma prepare_ignores_store_owned:
  "prepare_record_for_db (r\<lparr> id' := i, created_at := c, updated_at := u \<rparr>) =
   prepare_record_for_db r"
  unfolding prepare_record_for_db_eq by simp

lemma prepare_ignores_excel_blob_info:
  "prepare_record_for_db (r\<lparr> excel_blob_info := x \<rparr>) = prepare_record_for_db r"
  unfolding prepare_record_for_db_eq by simp

lemma mem_execute_update:
  "mem_execute (eq_q (table_q ''one_pager_reports'' (Update data)) ''id'' (PInt i)) db =
     (Inr (map (\<lambda>r. AList.merge r data) (filter (matches [(''id'', PInt i)]) (rows db))),
      db\<lparr> rows := map (\<lambda>r. if matches [(''id'', PInt i)] r then AList.merge r data else r)
                      (rows db) \<rparr>)"
  by (simp add: mem_execute_def table_q_def eq_q_def)

lemma mem_execute_update_guarded:
  "mem_execute
     (eq_q (eq_q (table_q ''one_pager_reports'' (Update data)) ''id'' (PInt i))
        ''status'' (PStr s)) db =
     (Inr (map (\<lambda>r. AList.merge r data)
             (filter (matches [(''id'', PInt i), (''status'', PStr s)]) (rows db))),
      db\<lparr> rows := map (\<lambda>r. if matches [(''id'', PInt i), (''status'', PStr s)] r
                            then AList.merge r data else r)
                      (rows db) \<rparr>)"
  by (simp add: mem_execute_def table_q_def eq_q_def)

lemma update_on_mem_store:
  "update_one_pager_record mem_service now i ud db =
     (first_record
        (Inr (map (\<lambda>r. AList.merge r (update_fields now ud))
                (filter (matches [(''id'', PInt i)]) (rows db)))),
      db\<lparr> rows := map (\<lambda>r. if matches [(''id'', PInt i)] r
                            then AList.merge r (update_fields now ud) else r)
                      (rows db) \<rparr>)"
  unfolding update_one_pager_record_sends
  by (simp add: mem_service_def mem_execute_update)

lemma update_atomic_on_mem_store:
  "update_one_pager_record_atomic mem_service now i ud (Some s) db =
     (first_record
        (Inr (map (\<lambda>r. AList.merge r (update_fields now ud))
                (filter (matches [(''id'', PInt i), (''status'', PStr s)]) (rows db)))),
      db\<lparr> rows := map (\<lambda>r. if matches [(''id'', PInt i), (''status'', PStr s)] r
                            then AList.merge r (update_fields now ud) else r)
                      (rows db) \<rparr>)"
  unfolding update_one_pager_record_atomic_sends
  by (simp add: mem_service_def mem_execute_update_guarded)

lemma map_of_merge:
  "map_of (AList.merge row data) k =
     (case map_of data k of Some v \<Rightarrow> Some v | None \<Rightarrow> map_of row k)"
  by (simp add: merge_conv' map_add_def)

lemma dict_get_merge:
  "dict_get (AList.merge row data) k =
     (case map_of data k of Some v \<Rightarrow> v | None \<Rightarrow> dict_get row k)"
  by (simp add: dict_get_def map_of_merge split: option.splits)

lemma update_fields_info:
  "map_of (update_fields now ud) ''excel_blob_info'' =
     Some (spec_packing_rule (dict_get ud ''excel_blob_url'') (dict_get ud ''excel_blob_path''))"
  by (simp add: map_of_update_fields)

lemma update_fields_updated_at:
  "map_of (update_fields now ud) ''updated_at'' = Some (PStr now)"
  by (simp add: map_of_update_fields)

lemma update_fields_excel_keys:
  "map_of (update_fields now ud) ''excel_blob_url'' = None"
  "map_of (update_fields now ud) ''excel_blob_path'' = None"
  by (simp_all add: map_of_update_fields)

lemma update_fields_other:
  assumes "k \<noteq> ''excel_blob_url''" "k \<noteq> ''excel_blob_path''" "k \<noteq> ''excel_blob_info''"
    "k \<noteq> ''updated_at''"
  shows "map_of (update_fields now ud) k = map_of ud k"
  using assms by (simp add: map_of_update_fields)

lemma update_recorded:
  "snd (update_one_pager_record (recording_service response) now i ud sent) =
     sent @ [eq_q (table_q ''one_pager_reports'' (Update (update_fields now ud)))
               ''id'' (PInt i)]"
  by (simp add: update_one_pager_record_sends recording_service_def)

lemma update_atomic_recorded:
  "snd (update_one_pager_record_atomic (recording_service response) now i ud expected sent) =
     sent @ [case expected of
               None \<Rightarrow> eq_q (table_q ''one_pager_reports'' (Update (update_fields now ud)))
                         ''id'' (PInt i)
             | Some s \<Rightarrow>
                 eq_q (eq_q (table_q ''one_pager_reports'' (Update (update_fields now ud)))
                         ''id'' (PInt i)) ''status'' (PStr s)]"
  by (cases expected)
    (simp_all add: update_one_pager_record_atomic_sends recording_service_def)

lemma create_recorded:
  "snd (create_one_pager_record (recording_service response) now r sent) =
     sent @ [table_q ''one_pager_reports''
               (Insert (prepare_record_for_db r @
                  [(''created_at'', PStr now), (''updated_at'', PStr now)]))]"
  by (simp add: create_one_pager_record_sends recording_service_def)

lemma prepare_info:
  "map_of (prepare_record_for_db r @ [(''created_at'', PStr now), (''updated_at'', PStr now)])
     ''excel_blob_info'' =
   Some (spec_packing_rule (dump_optional PStr (excel_blob_url r))
           (dump_optional PStr (excel_blob_path r)))"
  unfolding prepare_record_for_db_eq by simp

lemma extract_without_info:
  assumes "dict_get row ''excel_blob_info'' = PNone"
    and "extract_record_from_db row = Inr rec"
  shows "excel_blob_url rec = None \<and> excel_blob_path rec = None"
proof -
  let ?row = "dict_set (dict_set row ''excel_blob_url'' PNone) ''excel_blob_path'' PNone"
  have "new_OnePagerRecord ?row = Inr rec"
    using assms by (simp add: extract_record_from_db_other)
  then have "field_default ?row ''excel_blob_url'' None (val_optional val_str)
               = Inr (excel_blob_url rec)"
    and "field_default ?row ''excel_blob_path'' None (val_optional val_str)
               = Inr (excel_blob_path rec)"
    by (simp_all add: new_OnePagerRecord_Inr_iff)
  then show ?thesis
    by (simp add: field_default_def map_of_dict_set)
qed

lemma one_row_db_eq:
  "one_row_db = \<lparr> rows = [stored_row ''2024-01-01T00:00:01'' 1 in_progress_record],
                  next_id = 2 \<rparr>"
  by (simp add: one_row_db_def create_on_mem_store empty_db_def)

lemma rows_after_update:
  "rows (snd (update_one_pager_record mem_service now i ud db)) =
     map (\<lambda>row. if matches [(''id'', PInt i)] row
                 then AList.merge row (update_fields now ud) else row) (rows db)"
  by (simp add: update_on_mem_store)

lemma rows_after_update_atomic:
  "rows (snd (update_one_pager_record_atomic mem_service now i ud (Some s) db)) =
     map (\<lambda>row. if matches [(''id'', PInt i), (''status'', PStr s)] row
                 then AList.merge row (update_fields now ud) else row) (rows db)"
  by (simp add: update_atomic_on_mem_store)

lemma stored_row_created_at:
  "dict_get (stored_row now n r) ''created_at'' = PStr now"
  unfolding stored_row_def prepare_record_for_db_eq dict_get_def by simp

lemma stored_row_status:
  "map_of (stored_row now n r) ''status'' = Some (PStr (status r))"
  unfolding stored_row_def prepare_record_for_db_eq by simp

lemma stored_row_id_get: "dict_get (stored_row now n r) ''id'' = PInt n"
  by (simp add: dict_get_def stored_row_id)

lemma written_update_recorded:
  "written (hd (snd (update_one_pager_record (recording_service response) now i ud []))) =
     update_fields now ud"
  by (simp add: update_recorded written_def eq_q_def table_q_def)

lemma rows_after_update_atomic_unguarded:
  "rows (snd (update_one_pager_record_atomic mem_service now i ud None db)) =
     map (\<lambda>row. if matches [(''id'', PInt i)] row
                 then AList.merge row (update_fields now ud) else row) (rows db)"
  unfolding update_one_pager_record_atomic_sends
  by (simp add: mem_service_def mem_execute_update)

lemma new_OnePagerRecord_cong:
  assumes "map_of a = map_of b"
  shows "new_OnePagerRecord a = new_OnePagerRecord b"
  unfolding new_OnePagerRecord_def field_required_def field_default_def assms
  by (rule refl)

lemma extract_record_from_db_cong:
  assumes "map_of a = map_of b"
  shows "extract_record_from_db a = extract_record_from_db b"
proof -
  have get: "dict_get a k = dict_get b k" for k
    by (simp add: dict_get_def assms)
  have new: "new_OnePagerRecord (dict_set (dict_set a k v) k' v')
        = new_OnePagerRecord (dict_set (dict_set b k v) k' v')" for k v k' v'
    by (rule new_OnePagerRecord_cong) (simp add: map_of_dict_set assms)
  show ?thesis
    unfolding extract_record_from_db_def Let_def
    by (simp add: dict_get_dict_set get new)
qed

lemma extract_record_from_db_form:
  "\<exists>u p. extract_record_from_db row =
     new_OnePagerRecord (dict_set (dict_set row ''excel_blob_url'' u) ''excel_blob_path'' p)"
  unfolding extract_record_from_db_def Let_def
  by (auto simp: dict_get_dict_set)

lemma extract_status:
  assumes "extract_record_from_db row = Inr rec"
  shows "map_of row ''status'' = Some (PStr (status rec))"
proof -
  obtain u p where
    "new_OnePagerRecord (dict_set (dict_set row ''excel_blob_url'' u) ''excel_blob_path'' p)
       = Inr rec"
    using extract_record_from_db_form [of row] assms by auto
  then have "field_required (dict_set (dict_set row ''excel_blob_url'' u) ''excel_blob_path'' p)
      ''status'' val_str = Inr (status rec)"
    by (simp add: new_OnePagerRecord_Inr_iff)
  then have *: "(case map_of row ''status'' of
              None \<Rightarrow> Inl (ValidationError ''Field required'') | Some v \<Rightarrow> val_str v)
           = Inr (status rec)"
    by (simp add: field_required_def map_of_dict_set)
  show ?thesis
  proof (cases "map_of row ''status''")
    case None
    with * show ?thesis by simp
  next
    case (Some v)
    with * show ?thesis by (cases v) simp_all
  qed
qed

lemma new_OnePagerRecord_rejects_excel_blob_url:
  assumes "map_of row ''excel_blob_url'' = Some v" and "v \<noteq> PNone" and "\<And>s. v \<noteq> PStr s"
  shows "\<exists>e. new_OnePagerRecord row = Inl e"
proof (cases "new_OnePagerRecord row")
  case (Inl e)
  then show ?thesis by blast
next
  case (Inr rec)
  then have "field_default row ''excel_blob_url'' None (val_optional val_str)
               = Inr (excel_blob_url rec)"
    by (simp add: new_OnePagerRecord_Inr_iff)
  with assms show ?thesis
    by (cases v) (auto simp: field_default_def)
qed

lemma new_OnePagerRecord_rejects_excel_blob_info:
  assumes "map_of row ''excel_blob_info'' = Some v" and "v \<noteq> PNone"
    and "\<not> isinstance_dict v"
  shows "\<exists>e. new_OnePagerRecord row = Inl e"
proof (cases "new_OnePagerRecord row")
  case (Inl e)
  then show ?thesis by blast
next
  case (Inr rec)
  then have "field_default row ''excel_blob_info'' None (val_optional val_dict)
               = Inr (excel_blob_info rec)"
    by (simp add: new_OnePagerRecord_Inr_iff)
  with assms show ?thesis
    by (cases v) (simp_all add: field_default_def)
qed

lemma raises_only_Exception_val_str: "raises_only_Exception (val_str v)"
  by (cases v) simp_all

lemma raises_only_Exception_val_int: "raises_only_Exception (val_int v)"
  by (cases v) (simp_all split: option.splits)

lemma raises_only_Exception_val_bool: "raises_only_Exception (val_bool v)"
  by (cases v) (simp_all split: option.splits)

lemma raises_only_Exception_val_dict: "raises_only_Exception (val_dict v)"
  by (cases v) simp_all

lemma raises_only_Exception_traverse:
  assumes "\<And>x. raises_only_Exception (f x)"
  shows "raises_only_Exception (traverse_res f xs)"
  by (induction xs) (simp_all add: raises_only_Exception_bind assms)

lemma raises_only_Exception_val_list:
  assumes "\<And>x. raises_only_Exception (f x)"
  shows "raises_only_Exception (val_list f v)"
  by (cases v) (simp_all add: raises_only_Exception_traverse assms)

lemma raises_only_Exception_val_optional:
  assumes "\<And>x. raises_only_Exception (f x)"
  shows "raises_only_Exception (val_optional f v)"
  by (cases v) (simp_all add: raises_only_Exception_bind assms)

lemma raises_only_Exception_field_required:
  assumes "\<And>x. raises_only_Exception (f x)"
  shows "raises_only_Exception (field_required row k f)"
  by (simp add: field_required_def assms split: option.splits)

lemma raises_only_Exception_field_default:
  assumes "\<And>x. raises_only_Exception (f x)"
  shows "raises_only_Exception (field_default row k d f)"
  by (simp add: field_default_def assms split: option.splits)

lemma raises_only_Exception_new_OnePagerRecord:
  "raises_only_Exception (new_OnePagerRecord row)"
  unfolding new_OnePagerRecord_def
  by (intro raises_only_Exception_bind raises_only_Exception_field_required
      raises_only_Exception_field_default raises_only_Exception_val_optional
      raises_only_Exception_val_list raises_only_Exception_val_str
      raises_only_Exception_val_int raises_only_Exception_val_bool
      raises_only_Exception_val_dict raises_only_Exception_Inr)

lemma raises_only_Exception_extract:
  "raises_only_Exception (extract_record_from_db row)"
  using extract_record_from_db_form [of row] raises_only_Exception_new_OnePagerRecord
  by auto

lemma first_record_rows:
  "first_record (Inr rs) =
     (case rs of
        [] \<Rightarrow> Inr None
      | row # rest \<Rightarrow>
          (case extract_record_from_db row of Inr rec \<Rightarrow> Inr (Some rec) | Inl e \<Rightarrow> Inr None))"
proof (cases rs)
  case Nil
  then show ?thesis by (simp add: first_record_def)
next
  case (Cons row rest)
  show ?thesis
  proof (cases "extract_record_from_db row")
    case (Inl e)
    with raises_only_Exception_extract [of row] have "isinstance_Exception e"
      by simp
    with Inl Cons show ?thesis by (simp add: first_record_def)
  next
    case (Inr rec)
    with Cons show ?thesis by (simp add: first_record_def)
  qed
qed

lemma map_unmatched:
  assumes "\<not> list_ex P xs"
  shows "map (\<lambda>x. if P x then f x else x) xs = xs" and "filter P xs = []"
  using assms by (induction xs) simp_all

lemma update_atomic_answer:
  "fst (update_one_pager_record_atomic mem_service now i ud (Some s) db) =
     (case filter (matches [(''id'', PInt i), (''status'', PStr s)]) (rows db) of
        [] \<Rightarrow> Inr None
      | row # rest \<Rightarrow>
          (case extract_record_from_db (AList.merge row (update_fields now ud)) of
             Inr rec \<Rightarrow> Inr (Some rec)
           | Inl e \<Rightarrow> Inr None))"
  by (simp add: update_atomic_on_mem_store first_record_rows split: list.splits)

lemma update_atomic_no_hit:
  assumes "\<not> list_ex (matches [(''id'', PInt i), (''status'', PStr s)]) (rows db)"
  shows "update_one_pager_record_atomic mem_service now i ud (Some s) db = (Inr None, db)"
  by (simp add: update_atomic_on_mem_store map_unmatched [OF assms] first_record_rows)

lemma matches_guard:
  "matches [(''id'', PInt i), (''status'', PStr s)] row \<longleftrightarrow>
     map_of row ''id'' = Some (PInt i) \<and> map_of row ''status'' = Some (PStr s)"
  by (simp add: matches_def)

lemma no_hit_after_transition:
  assumes "map_of data ''status'' = Some (PStr t)" and "t \<noteq> s"
  shows "\<not> list_ex (matches [(''id'', PInt i), (''status'', PStr s)])
           (map (\<lambda>row. if matches [(''id'', PInt i), (''status'', PStr s)] row
                        then AList.merge row data else row) rows0)"
  using assms by (induction rows0) (auto simp: matches_guard map_of_merge)


lemma update_atomic_store:
  "snd (update_one_pager_record_atomic mem_service now i ud (Some s) db) =
     db\<lparr> rows := map (\<lambda>row. if matches [(''id'', PInt i), (''status'', PStr s)] row
                              then AList.merge row (update_fields now ud) else row)
                      (rows db) \<rparr>"
  by (simp add: update_atomic_on_mem_store)

lemma extract_after_status_update:
  assumes "map_of data =
     ((map_of [(''status'', PStr t)])(''excel_blob_url'' := None, ''excel_blob_path'' := None))
       (''excel_blob_info'' \<mapsto>
          spec_packing_rule (dict_get [(''status'', PStr t)] ''excel_blob_url'')
            (dict_get [(''status'', PStr t)] ''excel_blob_path''),
        ''updated_at'' \<mapsto> PStr now')"
  shows "extract_record_from_db (AList.merge (stored_row now n r) data) =
     Inr ((persisted now n r)\<lparr> status := t, updated_at := Some now', excel_blob_url := None,
                                excel_blob_path := None, excel_blob_info := None \<rparr>)"
proof -
  have data: "map_of data k =
     (if k = ''updated_at'' then Some (PStr now')
      else if k = ''excel_blob_info'' then Some PNone
      else if k = ''status'' then Some (PStr t) else None)" for k
    unfolding assms by (simp add: spec_packing_rule_def dict_get_def)
  have info: "dict_get (AList.merge (stored_row now n r) data) ''excel_blob_info'' = PNone"
    by (simp add: dict_get_merge data)
  have ex: "extract_record_from_db (AList.merge (stored_row now n r) data) =
      new_OnePagerRecord
        (dict_set (dict_set (AList.merge (stored_row now n r) data) ''excel_blob_url'' PNone)
           ''excel_blob_path'' PNone)"
    by (simp add: extract_record_from_db_other info)
  show ?thesis
    unfolding ex new_OnePagerRecord_Inr_iff
    unfolding field_required_def field_default_def map_of_dict_set map_of_merge data
      stored_row_def prepare_record_for_db_eq persisted_def
    by (intro conjI) simp_all
qed

lemma new_minimal_row:
  assumes "val_optional val_dict info = Inr x"
  shows "new_OnePagerRecord (minimal_row info) = Inr (minimal_record\<lparr> excel_blob_info := x \<rparr>)"
  unfolding new_OnePagerRecord_Inr_iff
  unfolding field_required_def field_default_def minimal_row_def minimal_record_def
  using assms by (intro conjI) simp_all

lemma dict_get_minimal_row:
  "dict_get (minimal_row info) ''excel_blob_info'' = info"
  by (simp add: minimal_row_def dict_get_def)

lemma new_OnePagerRecord_set_excel_pair:
  assumes "new_OnePagerRecord row = Inr r0"
    and "val_optional val_str u = Inr a" and "val_optional val_str p = Inr b"
  shows "new_OnePagerRecord (dict_set (dict_set row ''excel_blob_url'' u) ''excel_blob_path'' p)
           = Inr (r0\<lparr> excel_blob_url := a, excel_blob_path := b \<rparr>)"
  using assms(1)
  unfolding new_OnePagerRecord_Inr_iff
  unfolding field_required_def field_default_def map_of_dict_set
  using assms(2,3) by (elim conjE, intro conjI) simp_all

lemma extract_with_object:
  assumes "dict_get row ''excel_blob_info'' = PDict d" and "d \<noteq> []"
    and "extract_record_from_db row = Inr rec"
  shows "dump_optional PStr (excel_blob_url rec) = dict_get d ''excel_blob_url''
       \<and> dump_optional PStr (excel_blob_path rec) = dict_get d ''excel_blob_path''"
proof -
  let ?row = "dict_set (dict_set row ''excel_blob_url'' (dict_get d ''excel_blob_url''))
                ''excel_blob_path'' (dict_get d ''excel_blob_path'')"
  have "new_OnePagerRecord ?row = Inr rec"
    using assms by (simp add: extract_record_from_db_object)
  then have "field_default ?row ''excel_blob_url'' None (val_optional val_str)
               = Inr (excel_blob_url rec)"
    and "field_default ?row ''excel_blob_path'' None (val_optional val_str)
               = Inr (excel_blob_path rec)"
    by (simp_all add: new_OnePagerRecord_Inr_iff)
  then have u: "val_optional val_str (dict_get d ''excel_blob_url'') = Inr (excel_blob_url rec)"
    and p: "val_optional val_str (dict_get d ''excel_blob_path'') = Inr (excel_blob_path rec)"
    by (simp_all add: field_default_def map_of_dict_set)
  have "dump_optional PStr y = v" if "val_optional val_str v = Inr y" for v y
    using that by (cases v) (auto simp: dump_optional_def)
  from this [OF u] this [OF p] show ?thesis by simp
qed

lemma extract_rejects_non_object:
  assumes "map_of row ''excel_blob_info'' = Some v" and "v \<noteq> PNone" and "\<not> isinstance_dict v"
  shows "isl (extract_record_from_db row)"
proof -
  have get: "dict_get row ''excel_blob_info'' = v"
    using assms(1) by (simp add: dict_get_def)
  have "\<exists>e. new_OnePagerRecord
          (dict_set (dict_set row ''excel_blob_url'' PNone) ''excel_blob_path'' PNone) = Inl e"
    using assms by (intro new_OnePagerRecord_rejects_excel_blob_info [where v = v])
      (simp_all add: map_of_dict_set)
  then show ?thesis
    using assms(3) by (auto simp: extract_record_from_db_other get)
qed


lemma extract_without_object:
  assumes "\<not> truthy (dict_get row ''excel_blob_info'')
           \<or> \<not> isinstance_dict (dict_get row ''excel_blob_info'')"
    and "extract_record_from_db row = Inr rec"
  shows "excel_blob_url rec = None \<and> excel_blob_path rec = None"
proof -
  let ?row = "dict_set (dict_set row ''excel_blob_url'' PNone) ''excel_blob_path'' PNone"
  have "new_OnePagerRecord ?row = Inr rec"
    using assms by (simp add: extract_record_from_db_other)
  then have "field_default ?row ''excel_blob_url'' None (val_optional val_str)
               = Inr (excel_blob_url rec)"
    and "field_default ?row ''excel_blob_path'' None (val_optional val_str)
               = Inr (excel_blob_path rec)"
    by (simp_all add: new_OnePagerRecord_Inr_iff)
  then show ?thesis
    by (simp add: field_default_def map_of_dict_set)
qed

lemma extract_rejects_non_string_url:
  assumes "dict_get row ''excel_blob_info'' = PDict d" and "d \<noteq> []"
    and "dict_get d ''excel_blob_url'' = v" and "v \<noteq> PNone" and "\<And>s. v \<noteq> PStr s"
  shows "isl (extract_record_from_db row)"
proof -
  have "\<exists>e. new_OnePagerRecord
          (dict_set (dict_set row ''excel_blob_url'' v)
             ''excel_blob_path'' (dict_get d ''excel_blob_path'')) = Inl e"
    using assms(4,5)
    by (intro new_OnePagerRecord_rejects_excel_blob_url [where v = v])
      (simp_all add: map_of_dict_set)
  then show ?thesis
    by (auto simp: extract_record_from_db_object [OF assms(1,2)] assms(3))
qed

lemma written_create_recorded:
  "written (hd (snd (create_one_pager_record (recording_service response) now r []))) =
     prepare_record_for_db r @ [(''created_at'', PStr now), (''updated_at'', PStr now)]"
  by (simp add: create_recorded written_def table_q_def)








section \<open>The claims\<close>

text \<open>
  C1. For every record whose \<^verbatim>\<open>excel_blob_url\<close> and \<^verbatim>\<open>excel_blob_path\<close> are both
  non-empty strings, \<^verbatim>\<open>create_one_pager_record\<close> followed by
  \<^verbatim>\<open>get_one_pager_record\<close> on the returned id yields a record whose two fields equal
  the originals. On the reference store, in any state whose ids were handed out by the
  sequence: the creation returns a record, its id is the store's next id, the read of
  that id returns a record, and both the created and the read record carry the original
  pair.
\<close>

theorem create_then_get_round_trip:
  assumes "wf_db db"
    and "excel_blob_url r = Some u" and "u \<noteq> []"
    and "excel_blob_path r = Some p" and "p \<noteq> []"
  shows "\<exists>created got db'.
           create_one_pager_record mem_service now r db = (Inr (Some created), db')
           \<and> id' created = Some (next_id db)
           \<and> get_one_pager_record mem_service (next_id db) db' = (Inr (Some got), db')
           \<and> excel_blob_url got = Some u \<and> excel_blob_path got = Some p
           \<and> excel_blob_url created = Some u \<and> excel_blob_path created = Some p"
proof -
  have "excel_blob_url (persisted now (next_id db) r) = Some u"
       "excel_blob_path (persisted now (next_id db) r) = Some p"
       "id' (persisted now (next_id db) r) = Some (next_id db)"
    using assms by (simp_all add: persisted_def dump_optional_def)
  then show ?thesis
    using get_after_create [OF assms(1), of now r]
    by (simp add: create_on_mem_store)
qed

theorem create_then_get_round_trip_witness:
  "wf_db empty_db
   \<and> excel_blob_url test_record = Some ''https://example.com/test_data.xlsx''
   \<and> ''https://example.com/test_data.xlsx'' \<noteq> []
   \<and> excel_blob_path test_record = Some ''one-pagers/test_excel/excel/test_data.xlsx''
   \<and> ''one-pagers/test_excel/excel/test_data.xlsx'' \<noteq> []
   \<and> (\<exists>created got db'.
     create_one_pager_record mem_service ''2024-01-01T00:00:01'' test_record empty_db
       = (Inr (Some created), db')
     \<and> id' created = Some 1
     \<and> get_one_pager_record mem_service 1 db' = (Inr (Some got), db')
     \<and> excel_blob_url got = Some ''https://example.com/test_data.xlsx''
     \<and> excel_blob_path got = Some ''one-pagers/test_excel/excel/test_data.xlsx''
     \<and> excel_blob_url created = Some ''https://example.com/test_data.xlsx''
     \<and> excel_blob_path created = Some ''one-pagers/test_excel/excel/test_data.xlsx'')"
proof -
  have wf: "wf_db empty_db"
    by (simp add: wf_db_def empty_db_def)
  have url: "excel_blob_url test_record = Some ''https://example.com/test_data.xlsx''"
    and path: "excel_blob_path test_record = Some ''one-pagers/test_excel/excel/test_data.xlsx''"
    by (simp_all add: test_record_def)
  have first: "next_id empty_db = 1"
    by (simp add: empty_db_def)
  from create_then_get_round_trip [OF wf url _ path, of "''2024-01-01T00:00:01''"]
  have "\<exists>created got db'.
     create_one_pager_record mem_service ''2024-01-01T00:00:01'' test_record empty_db
       = (Inr (Some created), db')
     \<and> id' created = Some 1
     \<and> get_one_pager_record mem_service 1 db' = (Inr (Some got), db')
     \<and> excel_blob_url got = Some ''https://example.com/test_data.xlsx''
     \<and> excel_blob_path got = Some ''one-pagers/test_excel/excel/test_data.xlsx''
     \<and> excel_blob_url created = Some ''https://example.com/test_data.xlsx''
     \<and> excel_blob_path created = Some ''one-pagers/test_excel/excel/test_data.xlsx''"
    by (simp add: first)
  with wf url path show ?thesis by simp
qed

text \<open>
  C6. \<^verbatim>\<open>update_one_pager_record_atomic\<close> with \<^verbatim>\<open>expected_status\<close> absent is
  \<^verbatim>\<open>update_one_pager_record\<close>: for every client, time, id, field set and state of the
  store the two calls send the same query (the same filter and the same written fields)
  and return the same value and the same store.
\<close>

theorem update_atomic_without_guard_is_update:
  "update_one_pager_record_atomic self now record_id update_data None db =
   update_one_pager_record self now record_id update_data db"
  by (simp add: update_one_pager_record_atomic_sends update_one_pager_record_sends)

text \<open>
  C8. For every record, \<^verbatim>\<open>create_one_pager_record\<close> sends one insert whose field set
  has \<^verbatim>\<open>created_at\<close> and \<^verbatim>\<open>updated_at\<close> equal to the current time and no \<^verbatim>\<open>id\<close>,
  and the insert is the same whatever the record's own \<^verbatim>\<open>id\<close>, \<^verbatim>\<open>created_at\<close> and
  \<^verbatim>\<open>updated_at\<close> are. On the reference store the creation succeeds: it returns the
  record read back from the inserted row, which carries the store's next id and the time
  stamp in both fields.
\<close>

theorem create_stamps_and_returns_persisted:
  "(\<exists>data.
      snd (create_one_pager_record (recording_service response) now r sent)
        = sent @ [table_q ''one_pager_reports'' (Insert data)]
      \<and> snd (create_one_pager_record (recording_service response) now
               (r\<lparr> id' := i, created_at := c, updated_at := u \<rparr>) sent)
        = sent @ [table_q ''one_pager_reports'' (Insert data)]
      \<and> map_of data ''created_at'' = Some (PStr now)
      \<and> map_of data ''updated_at'' = Some (PStr now)
      \<and> map_of data ''id'' = None)
   \<and> (\<exists>created db'.
        create_one_pager_record mem_service now r db = (Inr (Some created), db')
        \<and> rows db' = rows db @ [stored_row now (next_id db) r]
        \<and> extract_record_from_db (stored_row now (next_id db) r) = Inr created
        \<and> created = persisted now (next_id db) r
        \<and> id' created = Some (next_id db)
        \<and> created_at created = Some now
        \<and> updated_at created = Some now)"
proof -
  let ?data = "prepare_record_for_db r @ [(''created_at'', PStr now), (''updated_at'', PStr now)]"
  have "map_of ?data ''created_at'' = Some (PStr now)"
       "map_of ?data ''updated_at'' = Some (PStr now)"
       "map_of ?data ''id'' = None"
    unfolding prepare_record_for_db_eq by simp_all
  then have sent: "\<exists>data.
      snd (create_one_pager_record (recording_service response) now r sent)
        = sent @ [table_q ''one_pager_reports'' (Insert data)]
      \<and> snd (create_one_pager_record (recording_service response) now
               (r\<lparr> id' := i, created_at := c, updated_at := u \<rparr>) sent)
        = sent @ [table_q ''one_pager_reports'' (Insert data)]
      \<and> map_of data ''created_at'' = Some (PStr now)
      \<and> map_of data ''updated_at'' = Some (PStr now)
      \<and> map_of data ''id'' = None"
    by (intro exI [of _ ?data])
      (simp add: create_one_pager_record_sends prepare_ignores_store_owned
        recording_service_def)
  have fields: "id' (persisted now (next_id db) r) = Some (next_id db)"
      "created_at (persisted now (next_id db) r) = Some now"
      "updated_at (persisted now (next_id db) r) = Some now"
    by (simp_all add: persisted_def)
  show ?thesis
    using sent fields by (simp add: create_on_mem_store extract_stored_row)
qed

text \<open>
  C10. On every write the \<^verbatim>\<open>excel_blob_info\<close> that is sent to the store is the value
  the packing rule computes from \<^verbatim>\<open>excel_blob_url\<close> and \<^verbatim>\<open>excel_blob_path\<close>. For
  \<^verbatim>\<open>create_one_pager_record\<close> the insert is the same whatever \<^verbatim>\<open>excel_blob_info\<close> the
  input record carries. For \<^verbatim>\<open>update_one_pager_record\<close> and
  \<^verbatim>\<open>update_one_pager_record_atomic\<close> this holds for every field set, and in particular
  for one that supplies an \<^verbatim>\<open>excel_blob_info\<close> of its own: what is sent is the
  recomputed value, not the supplied one.
\<close>

theorem excel_blob_info_is_recomputed:
  "(\<exists>data.
      snd (create_one_pager_record (recording_service response) now r sent)
        = sent @ [table_q ''one_pager_reports'' (Insert data)]
      \<and> snd (create_one_pager_record (recording_service response) now
               (r\<lparr> excel_blob_info := supplied \<rparr>) sent)
        = sent @ [table_q ''one_pager_reports'' (Insert data)]
      \<and> map_of data ''excel_blob_info'' =
          Some (spec_packing_rule (dump_optional PStr (excel_blob_url r))
                  (dump_optional PStr (excel_blob_path r))))
   \<and> (\<exists>data.
        snd (update_one_pager_record (recording_service response) now i
               ((''excel_blob_info'', x) # ud) sent)
          = sent @ [eq_q (table_q ''one_pager_reports'' (Update data)) ''id'' (PInt i)]
        \<and> map_of data ''excel_blob_info'' =
            Some (spec_packing_rule (dict_get ud ''excel_blob_url'')
                    (dict_get ud ''excel_blob_path'')))
   \<and> (\<exists>data.
        snd (update_one_pager_record (recording_service response) now i ud sent)
          = sent @ [eq_q (table_q ''one_pager_reports'' (Update data)) ''id'' (PInt i)]
        \<and> map_of data ''excel_blob_info'' =
            Some (spec_packing_rule (dict_get ud ''excel_blob_url'')
                    (dict_get ud ''excel_blob_path'')))
   \<and> (\<exists>data.
        snd (update_one_pager_record_atomic (recording_service response) now i
               ((''excel_blob_info'', x) # ud) expected sent)
          = sent @ [case expected of
                      None \<Rightarrow> eq_q (table_q ''one_pager_reports'' (Update data)) ''id'' (PInt i)
                    | Some s \<Rightarrow>
                        eq_q (eq_q (table_q ''one_pager_reports'' (Update data)) ''id'' (PInt i))
                          ''status'' (PStr s)]
        \<and> map_of data ''excel_blob_info'' =
            Some (spec_packing_rule (dict_get ud ''excel_blob_url'')
                    (dict_get ud ''excel_blob_path'')))
   \<and> (\<exists>data.
        snd (update_one_pager_record_atomic (recording_service response) now i ud expected sent)
          = sent @ [case expected of
                      None \<Rightarrow> eq_q (table_q ''one_pager_reports'' (Update data)) ''id'' (PInt i)
                    | Some s \<Rightarrow>
                        eq_q (eq_q (table_q ''one_pager_reports'' (Update data)) ''id'' (PInt i))
                          ''status'' (PStr s)]
        \<and> map_of data ''excel_blob_info'' =
            Some (spec_packing_rule (dict_get ud ''excel_blob_url'')
                    (dict_get ud ''excel_blob_path'')))"
proof -
  have same: "dict_get ((''excel_blob_info'', x) # ud) ''excel_blob_url''
                = dict_get ud ''excel_blob_url''"
    "dict_get ((''excel_blob_info'', x) # ud) ''excel_blob_path''
                = dict_get ud ''excel_blob_path''"
    by (simp_all add: dict_get_def)
  have c: "\<exists>data.
      snd (create_one_pager_record (recording_service response) now r sent)
        = sent @ [table_q ''one_pager_reports'' (Insert data)]
      \<and> snd (create_one_pager_record (recording_service response) now
               (r\<lparr> excel_blob_info := supplied \<rparr>) sent)
        = sent @ [table_q ''one_pager_reports'' (Insert data)]
      \<and> map_of data ''excel_blob_info'' =
          Some (spec_packing_rule (dump_optional PStr (excel_blob_url r))
                  (dump_optional PStr (excel_blob_path r)))"
    by (intro exI [of _ "prepare_record_for_db r @
           [(''created_at'', PStr now), (''updated_at'', PStr now)]"] conjI)
      (simp_all only: create_recorded prepare_ignores_excel_blob_info prepare_info)
  have u1: "\<exists>data.
        snd (update_one_pager_record (recording_service response) now i
               ((''excel_blob_info'', x) # ud) sent)
          = sent @ [eq_q (table_q ''one_pager_reports'' (Update data)) ''id'' (PInt i)]
        \<and> map_of data ''excel_blob_info'' =
            Some (spec_packing_rule (dict_get ud ''excel_blob_url'')
                    (dict_get ud ''excel_blob_path''))"
    by (intro exI [of _ "update_fields now ((''excel_blob_info'', x) # ud)"])
      (simp add: update_recorded update_fields_info same)
  have u2: "\<exists>data.
        snd (update_one_pager_record (recording_service response) now i ud sent)
          = sent @ [eq_q (table_q ''one_pager_reports'' (Update data)) ''id'' (PInt i)]
        \<and> map_of data ''excel_blob_info'' =
            Some (spec_packing_rule (dict_get ud ''excel_blob_url'')
                    (dict_get ud ''excel_blob_path''))"
    by (intro exI [of _ "update_fields now ud"])
      (simp add: update_recorded update_fields_info)
  have a1: "\<exists>data.
        snd (update_one_pager_record_atomic (recording_service response) now i
               ((''excel_blob_info'', x) # ud) expected sent)
          = sent @ [case expected of
                      None \<Rightarrow> eq_q (table_q ''one_pager_reports'' (Update data)) ''id'' (PInt i)
                    | Some s \<Rightarrow>
                        eq_q (eq_q (table_q ''one_pager_reports'' (Update data)) ''id'' (PInt i))
                          ''status'' (PStr s)]
        \<and> map_of data ''excel_blob_info'' =
            Some (spec_packing_rule (dict_get ud ''excel_blob_url'')
                    (dict_get ud ''excel_blob_path''))"
    by (intro exI [of _ "update_fields now ((''excel_blob_info'', x) # ud)"])
      (simp add: update_atomic_recorded update_fields_info same)
  have a2: "\<exists>data.
        snd (update_one_pager_record_atomic (recording_service response) now i ud expected sent)
          = sent @ [case expected of
                      None \<Rightarrow> eq_q (table_q ''one_pager_reports'' (Update data)) ''id'' (PInt i)
                    | Some s \<Rightarrow>
                        eq_q (eq_q (table_q ''one_pager_reports'' (Update data)) ''id'' (PInt i))
                          ''status'' (PStr s)]
        \<and> map_of data ''excel_blob_info'' =
            Some (spec_packing_rule (dict_get ud ''excel_blob_url'')
                    (dict_get ud ''excel_blob_path''))"
    by (intro exI [of _ "update_fields now ud"])
      (simp add: update_atomic_recorded update_fields_info)
  from c u1 u2 a1 a2 show ?thesis by (intro conjI)
qed

text \<open>
  C4. For every \<^verbatim>\<open>update_one_pager_record\<close> or \<^verbatim>\<open>update_one_pager_record_atomic\<close>
  call whose field set has neither a non-empty \<^verbatim>\<open>excel_blob_url\<close> nor a non-empty
  \<^verbatim>\<open>excel_blob_path\<close> (absent, or a value Python takes for false), the field set sent
  to the store has \<^verbatim>\<open>excel_blob_info\<close> null. On the reference store every row the
  update applies to then holds null in that column, whatever it held before, and a record
  read back from such a row has both excel fields null.
\<close>

theorem update_without_excel_pair_erases_it:
  assumes "\<not> truthy (dict_get ud ''excel_blob_url'')"
    and "\<not> truthy (dict_get ud ''excel_blob_path'')"
  shows "\<exists>data.
     map_of data ''excel_blob_info'' = Some PNone
     \<and> snd (update_one_pager_record (recording_service response) now i ud sent)
         = sent @ [eq_q (table_q ''one_pager_reports'' (Update data)) ''id'' (PInt i)]
     \<and> snd (update_one_pager_record_atomic (recording_service response) now i ud expected sent)
         = sent @ [case expected of
                     None \<Rightarrow> eq_q (table_q ''one_pager_reports'' (Update data)) ''id'' (PInt i)
                   | Some s \<Rightarrow>
                       eq_q (eq_q (table_q ''one_pager_reports'' (Update data)) ''id'' (PInt i))
                         ''status'' (PStr s)]
     \<and> rows (snd (update_one_pager_record mem_service now i ud db))
         = map (\<lambda>row. if matches [(''id'', PInt i)] row then AList.merge row data else row)
             (rows db)
     \<and> rows (snd (update_one_pager_record_atomic mem_service now i ud (Some s) db))
         = map (\<lambda>row. if matches [(''id'', PInt i), (''status'', PStr s)] row
                       then AList.merge row data else row)
             (rows db)
     \<and> (\<forall>row. dict_get (AList.merge row data) ''excel_blob_info'' = PNone)
     \<and> (\<forall>row rec. extract_record_from_db (AList.merge row data) = Inr rec
           \<longrightarrow> excel_blob_url rec = None \<and> excel_blob_path rec = None)"
proof -
  let ?data = "update_fields now ud"
  have info: "map_of ?data ''excel_blob_info'' = Some PNone"
    using assms by (simp add: update_fields_info spec_packing_rule_def)
  then have null: "dict_get (AList.merge row ?data) ''excel_blob_info'' = PNone" for row
    by (simp add: dict_get_merge)
  have reads: "excel_blob_url rec = None \<and> excel_blob_path rec = None"
    if "extract_record_from_db (AList.merge row ?data) = Inr rec" for row rec
    using extract_without_info [OF null that] .
  show ?thesis
    using info null reads
    by (intro exI [of _ ?data])
      (simp add: update_recorded update_atomic_recorded rows_after_update
        rows_after_update_atomic)
qed

theorem update_without_excel_pair_erases_it_witness:
  "\<not> truthy (dict_get [(''status'', PStr ''success'')] ''excel_blob_url'')
   \<and> \<not> truthy (dict_get [(''status'', PStr ''success'')] ''excel_blob_path'')
   \<and> dict_get (hd (rows one_row_db)) ''excel_blob_info''
        = PDict [(''excel_blob_url'', PStr ''https://example.com/test_data.xlsx''),
                 (''excel_blob_path'', PStr ''one-pagers/test_excel/excel/test_data.xlsx'')]
   \<and> dict_get (hd (rows (snd (update_one_pager_record mem_service ''2024-01-02T00:00:00'' 1
                                [(''status'', PStr ''success'')] one_row_db))))
        ''excel_blob_info'' = PNone
   \<and> dict_get (hd (rows (snd (update_one_pager_record_atomic mem_service
                                ''2024-01-02T00:00:00'' 1 [(''status'', PStr ''success'')]
                                (Some ''in-progress'') one_row_db))))
        ''excel_blob_info'' = PNone"
proof -
  have h: "\<not> truthy (dict_get [(''status'', PStr ''success'')] ''excel_blob_url'')"
    "\<not> truthy (dict_get [(''status'', PStr ''success'')] ''excel_blob_path'')"
    by (simp_all add: dict_get_def)
  have before: "dict_get (hd (rows one_row_db)) ''excel_blob_info''
        = PDict [(''excel_blob_url'', PStr ''https://example.com/test_data.xlsx''),
                 (''excel_blob_path'', PStr ''one-pagers/test_excel/excel/test_data.xlsx'')]"
    by (simp add: one_row_db_eq stored_row_info spec_packing_rule_def in_progress_record_def
        test_record_def dump_optional_def)
  have hit: "matches [(''id'', PInt 1)] (stored_row ''2024-01-01T00:00:01'' 1 in_progress_record)"
    "matches [(''id'', PInt 1), (''status'', PStr ''in-progress'')]
       (stored_row ''2024-01-01T00:00:01'' 1 in_progress_record)"
    by (simp_all add: matches_def stored_row_id stored_row_status in_progress_record_def)
  from update_without_excel_pair_erases_it [OF h, of "Inr []" "''2024-01-02T00:00:00''" 1 "[]"
      None one_row_db "''in-progress''"]
  obtain data where
    "rows (snd (update_one_pager_record mem_service ''2024-01-02T00:00:00'' 1
                  [(''status'', PStr ''success'')] one_row_db))
       = map (\<lambda>row. if matches [(''id'', PInt 1)] row then AList.merge row data else row)
           (rows one_row_db)"
    "rows (snd (update_one_pager_record_atomic mem_service ''2024-01-02T00:00:00'' 1
                  [(''status'', PStr ''success'')] (Some ''in-progress'') one_row_db))
       = map (\<lambda>row. if matches [(''id'', PInt 1), (''status'', PStr ''in-progress'')] row
                     then AList.merge row data else row)
           (rows one_row_db)"
    "\<forall>row. dict_get (AList.merge row data) ''excel_blob_info'' = PNone"
    by blast
  then show ?thesis
    using h before hit by (simp add: one_row_db_eq)
qed

text \<open>
  C7 as stated fails: the field set of an update is handed to the store as it is, apart
  from the excel pair and \<^verbatim>\<open>updated_at\<close>, so an \<^verbatim>\<open>id\<close> or \<^verbatim>\<open>created_at\<close> key of the
  caller reaches the store. Here the row created at \<^verbatim>\<open>2024-01-01T00:00:01\<close> under id 1
  gets another \<^verbatim>\<open>created_at\<close> by \<^verbatim>\<open>update_one_pager_record\<close> and by
  \<^verbatim>\<open>update_one_pager_record_atomic\<close>, and another \<^verbatim>\<open>id\<close>.
\<close>

theorem update_overwrites_created_at_and_id:
  "dict_get (hd (rows one_row_db)) ''created_at'' = PStr ''2024-01-01T00:00:01''
   \<and> dict_get (hd (rows one_row_db)) ''id'' = PInt 1
   \<and> dict_get (written (hd (snd (update_one_pager_record (recording_service (Inr []))
          ''2024-01-02T00:00:00'' 1 [(''created_at'', PStr ''1999-12-31T00:00:00'')] []))))
        ''created_at'' = PStr ''1999-12-31T00:00:00''
   \<and> dict_get (hd (rows (snd (update_one_pager_record mem_service ''2024-01-02T00:00:00'' 1
          [(''created_at'', PStr ''1999-12-31T00:00:00'')] one_row_db)))) ''created_at''
        = PStr ''1999-12-31T00:00:00''
   \<and> dict_get (hd (rows (snd (update_one_pager_record_atomic mem_service
          ''2024-01-02T00:00:00'' 1 [(''created_at'', PStr ''1999-12-31T00:00:00'')]
          (Some ''in-progress'') one_row_db)))) ''created_at''
        = PStr ''1999-12-31T00:00:00''
   \<and> dict_get (hd (rows (snd (update_one_pager_record mem_service ''2024-01-02T00:00:00'' 1
          [(''id'', PInt 42)] one_row_db)))) ''id''
        = PInt 42"
proof -
  have hit: "matches [(''id'', PInt 1)] (stored_row ''2024-01-01T00:00:01'' 1 in_progress_record)"
    "matches [(''id'', PInt 1), (''status'', PStr ''in-progress'')]
       (stored_row ''2024-01-01T00:00:01'' 1 in_progress_record)"
    by (simp_all add: matches_def stored_row_id stored_row_status in_progress_record_def)
  have sent: "map_of (update_fields now [(''created_at'', PStr ''1999-12-31T00:00:00'')])
       ''created_at'' = Some (PStr ''1999-12-31T00:00:00'')"
    "map_of (update_fields now [(''id'', PInt 42)]) ''id'' = Some (PInt 42)" for now
    by (simp_all add: map_of_update_fields)
  show ?thesis
    using hit
    by (simp add: one_row_db_eq stored_row_created_at stored_row_id_get rows_after_update
        rows_after_update_atomic dict_get_merge sent written_update_recorded)
      (simp add: dict_get_def sent)
qed

text \<open>
  C7, amended: for every \<^verbatim>\<open>update_one_pager_record\<close> or
  \<^verbatim>\<open>update_one_pager_record_atomic\<close> call whose field set has no \<^verbatim>\<open>id\<close> and no
  \<^verbatim>\<open>created_at\<close> key, the \<^verbatim>\<open>id\<close> and \<^verbatim>\<open>created_at\<close> columns of every row of the
  reference store are unchanged, and \<^verbatim>\<open>updated_at\<close> of every row the update applies to
  is the current time. For every field set at all (second part, \<open>ud'\<close>), the
  \<^verbatim>\<open>updated_at\<close> that is sent is the current time, whatever the caller supplied, while
  an \<^verbatim>\<open>id\<close> or \<^verbatim>\<open>created_at\<close> key is sent as the caller supplied it.
\<close>

theorem update_keeps_id_and_created_at:
  assumes "map_of ud ''id'' = None" and "map_of ud ''created_at'' = None"
  shows "(\<exists>data.
      rows (snd (update_one_pager_record mem_service now i ud db))
        = map (\<lambda>row. if matches [(''id'', PInt i)] row then AList.merge row data else row)
            (rows db)
      \<and> rows (snd (update_one_pager_record_atomic mem_service now i ud None db))
        = map (\<lambda>row. if matches [(''id'', PInt i)] row then AList.merge row data else row)
            (rows db)
      \<and> rows (snd (update_one_pager_record_atomic mem_service now i ud (Some s) db))
        = map (\<lambda>row. if matches [(''id'', PInt i), (''status'', PStr s)] row
                      then AList.merge row data else row)
            (rows db)
      \<and> (\<forall>row. map_of (AList.merge row data) ''id'' = map_of row ''id''
              \<and> map_of (AList.merge row data) ''created_at'' = map_of row ''created_at''
              \<and> map_of (AList.merge row data) ''updated_at'' = Some (PStr now)))
    \<and> (\<exists>data.
      snd (update_one_pager_record (recording_service response) now i ud' sent)
        = sent @ [eq_q (table_q ''one_pager_reports'' (Update data)) ''id'' (PInt i)]
      \<and> snd (update_one_pager_record_atomic (recording_service response) now i ud' expected sent)
         = sent @ [case expected of
                     None \<Rightarrow> eq_q (table_q ''one_pager_reports'' (Update data)) ''id'' (PInt i)
                   | Some s \<Rightarrow>
                       eq_q (eq_q (table_q ''one_pager_reports'' (Update data)) ''id'' (PInt i))
                         ''status'' (PStr s)]
      \<and> map_of data ''updated_at'' = Some (PStr now)
      \<and> map_of data ''id'' = map_of ud' ''id''
      \<and> map_of data ''created_at'' = map_of ud' ''created_at'')"
proof -
  have kept: "map_of (AList.merge row (update_fields now ud)) ''id'' = map_of row ''id''
      \<and> map_of (AList.merge row (update_fields now ud)) ''created_at'' = map_of row ''created_at''
      \<and> map_of (AList.merge row (update_fields now ud)) ''updated_at'' = Some (PStr now)"
    for row
    using assms by (simp add: map_of_merge map_of_update_fields)
  have store: "\<exists>data.
      rows (snd (update_one_pager_record mem_service now i ud db))
        = map (\<lambda>row. if matches [(''id'', PInt i)] row then AList.merge row data else row)
            (rows db)
      \<and> rows (snd (update_one_pager_record_atomic mem_service now i ud None db))
        = map (\<lambda>row. if matches [(''id'', PInt i)] row then AList.merge row data else row)
            (rows db)
      \<and> rows (snd (update_one_pager_record_atomic mem_service now i ud (Some s) db))
        = map (\<lambda>row. if matches [(''id'', PInt i), (''status'', PStr s)] row
                      then AList.merge row data else row)
            (rows db)
      \<and> (\<forall>row. map_of (AList.merge row data) ''id'' = map_of row ''id''
              \<and> map_of (AList.merge row data) ''created_at'' = map_of row ''created_at''
              \<and> map_of (AList.merge row data) ''updated_at'' = Some (PStr now))"
    using kept
    by (intro exI [of _ "update_fields now ud"])
      (simp add: rows_after_update rows_after_update_atomic
        rows_after_update_atomic_unguarded)
  have sent: "\<exists>data.
      snd (update_one_pager_record (recording_service response) now i ud' sent)
        = sent @ [eq_q (table_q ''one_pager_reports'' (Update data)) ''id'' (PInt i)]
      \<and> snd (update_one_pager_record_atomic (recording_service response) now i ud' expected sent)
         = sent @ [case expected of
                     None \<Rightarrow> eq_q (table_q ''one_pager_reports'' (Update data)) ''id'' (PInt i)
                   | Some s \<Rightarrow>
                       eq_q (eq_q (table_q ''one_pager_reports'' (Update data)) ''id'' (PInt i))
                         ''status'' (PStr s)]
      \<and> map_of data ''updated_at'' = Some (PStr now)
      \<and> map_of data ''id'' = map_of ud' ''id''
      \<and> map_of data ''created_at'' = map_of ud' ''created_at''"
    by (intro exI [of _ "update_fields now ud'"])
      (simp add: update_recorded update_atomic_recorded map_of_update_fields)
  from store sent show ?thesis by (intro conjI)
qed

theorem update_keeps_id_and_created_at_witness:
  "map_of [(''status'', PStr ''success'')] ''id'' = None
   \<and> map_of [(''status'', PStr ''success'')] ''created_at'' = None
   \<and> map_of (hd (rows one_row_db)) ''id'' = Some (PInt 1)
   \<and> map_of (hd (rows one_row_db)) ''created_at'' = Some (PStr ''2024-01-01T00:00:01'')
   \<and> map_of (hd (rows (snd (update_one_pager_record mem_service ''2024-01-02T00:00:00'' 1
          [(''status'', PStr ''success'')] one_row_db)))) ''id'' = Some (PInt 1)
   \<and> map_of (hd (rows (snd (update_one_pager_record mem_service ''2024-01-02T00:00:00'' 1
          [(''status'', PStr ''success'')] one_row_db)))) ''created_at''
        = Some (PStr ''2024-01-01T00:00:01'')
   \<and> map_of (hd (rows (snd (update_one_pager_record mem_service ''2024-01-02T00:00:00'' 1
          [(''status'', PStr ''success'')] one_row_db)))) ''updated_at''
        = Some (PStr ''2024-01-02T00:00:00'')
   \<and> map_of (hd (rows (snd (update_one_pager_record_atomic mem_service
          ''2024-01-02T00:00:00'' 1 [(''status'', PStr ''success'')] (Some ''in-progress'')
          one_row_db)))) ''created_at''
        = Some (PStr ''2024-01-01T00:00:01'')"
proof -
  have h: "map_of [(''status'', PStr ''success'')] ''id'' = None"
    "map_of [(''status'', PStr ''success'')] ''created_at'' = None"
    by simp_all
  have hit: "matches [(''id'', PInt 1)] (stored_row ''2024-01-01T00:00:01'' 1 in_progress_record)"
    "matches [(''id'', PInt 1), (''status'', PStr ''in-progress'')]
       (stored_row ''2024-01-01T00:00:01'' 1 in_progress_record)"
    by (simp_all add: matches_def stored_row_id stored_row_status in_progress_record_def)
  have before: "map_of (stored_row ''2024-01-01T00:00:01'' 1 in_progress_record) ''created_at''
      = Some (PStr ''2024-01-01T00:00:01'')"
    unfolding stored_row_def prepare_record_for_db_eq by simp
  from update_keeps_id_and_created_at [OF h, of "''2024-01-02T00:00:00''" 1 one_row_db
      "''in-progress''" "Inr []" "[]" "[]" None]
  obtain data where
    "rows (snd (update_one_pager_record mem_service ''2024-01-02T00:00:00'' 1
                  [(''status'', PStr ''success'')] one_row_db))
       = map (\<lambda>row. if matches [(''id'', PInt 1)] row then AList.merge row data else row)
           (rows one_row_db)"
    "rows (snd (update_one_pager_record_atomic mem_service ''2024-01-02T00:00:00'' 1
                  [(''status'', PStr ''success'')] (Some ''in-progress'') one_row_db))
       = map (\<lambda>row. if matches [(''id'', PInt 1), (''status'', PStr ''in-progress'')] row
                     then AList.merge row data else row)
           (rows one_row_db)"
    "\<forall>row. map_of (AList.merge row data) ''id'' = map_of row ''id''
              \<and> map_of (AList.merge row data) ''created_at'' = map_of row ''created_at''
              \<and> map_of (AList.merge row data) ''updated_at''
                   = Some (PStr ''2024-01-02T00:00:00'')"
    by blast
  then show ?thesis
    using hit before by (simp add: one_row_db_eq stored_row_id)
qed

text \<open>
  C2 as stated fails: a row with the id and the expected status does not suffice for a
  record to be returned. Here the row created under id 1 has status \<^verbatim>\<open>in-progress\<close>;
  the guarded update with the field set
  \<^verbatim>\<open>{'status': 'success', 'excel_blob_url': 5}\<close> applies (the stored status becomes
  \<^verbatim>\<open>success\<close>), but the row it reads back carries \<^verbatim>\<open>5\<close> where the record wants a
  string, the construction of the record raises, and the call returns \<^verbatim>\<open>None\<close>: the
  same value as for an absent id.
\<close>

theorem guarded_update_applies_and_returns_none:
  "list_ex (matches [(''id'', PInt 1), (''status'', PStr ''in-progress'')]) (rows one_row_db)
   \<and> fst (update_one_pager_record_atomic mem_service ''2024-01-02T00:00:00'' 1
           [(''status'', PStr ''success''), (''excel_blob_url'', PInt 5)]
           (Some ''in-progress'') one_row_db) = Inr None
   \<and> map_of (hd (rows (snd (update_one_pager_record_atomic mem_service
           ''2024-01-02T00:00:00'' 1
           [(''status'', PStr ''success''), (''excel_blob_url'', PInt 5)]
           (Some ''in-progress'') one_row_db)))) ''status'' = Some (PStr ''success'')"
proof -
  let ?now = "''2024-01-02T00:00:00''"
  let ?ud = "[(''status'', PStr ''success''), (''excel_blob_url'', PInt 5)]"
  let ?row = "stored_row ''2024-01-01T00:00:01'' 1 in_progress_record"
  let ?new = "AList.merge ?row (update_fields ?now ?ud)"
  have hit: "matches [(''id'', PInt 1), (''status'', PStr ''in-progress'')] ?row"
    by (simp add: matches_def stored_row_id stored_row_status in_progress_record_def)
  have info: "dict_get ?new ''excel_blob_info'' =
      PDict [(''excel_blob_url'', PInt 5), (''excel_blob_path'', PNone)]"
    by (simp add: dict_get_merge update_fields_info spec_packing_rule_def dict_get_def)
  have "\<exists>e. new_OnePagerRecord
      (dict_set (dict_set ?new ''excel_blob_url'' (PInt 5)) ''excel_blob_path'' PNone) = Inl e"
    by (rule new_OnePagerRecord_rejects_excel_blob_url [where v = "PInt 5"])
      (simp_all add: map_of_dict_set)
  then have rejected: "\<exists>e. extract_record_from_db ?new = Inl e"
    by (simp add: extract_record_from_db_object [OF info] dict_get_def)
  have status: "map_of ?new ''status'' = Some (PStr ''success'')"
    by (simp add: map_of_merge map_of_update_fields)
  from rejected obtain e where "extract_record_from_db ?new = Inl e" ..
  then show ?thesis
    using hit status
    by (simp add: one_row_db_eq update_atomic_answer update_atomic_store)
qed

text \<open>
  C2, amended: with \<^verbatim>\<open>expected_status\<close> supplied,
  \<^verbatim>\<open>update_one_pager_record_atomic\<close> on the reference store applies its field set, in
  one step, to exactly the rows that have the id and the expected status. It returns a
  record if and only if there is such a row and the row as updated is accepted by the
  record's constructor; the record is that row read back. In every other case it returns
  \<^verbatim>\<open>None\<close>; when no row has the id and the expected status (the id is absent, or the
  status differs) the store is left as it was, and the value returned is the same in both
  cases. After a call guarded on a status \<open>s\<close> whose field set sets \<^verbatim>\<open>status\<close> to
  another string \<open>t\<close>, a second call for the same id guarded on \<open>s\<close> returns
  \<^verbatim>\<open>None\<close> and leaves the store as the first call left it, and a record returned by the
  first call has status \<open>t\<close>.
\<close>

theorem guarded_update_on_store:
  "(\<exists>data.
      map_of data =
        ((map_of ud)(''excel_blob_url'' := None, ''excel_blob_path'' := None))
          (''excel_blob_info'' \<mapsto>
             spec_packing_rule (dict_get ud ''excel_blob_url'') (dict_get ud ''excel_blob_path''),
           ''updated_at'' \<mapsto> PStr now)
      \<and> snd (update_one_pager_record_atomic mem_service now i ud (Some s) db)
          = db\<lparr> rows := map (\<lambda>row. if matches [(''id'', PInt i), (''status'', PStr s)] row
                                     then AList.merge row data else row) (rows db) \<rparr>
      \<and> fst (update_one_pager_record_atomic mem_service now i ud (Some s) db)
          = (case filter (matches [(''id'', PInt i), (''status'', PStr s)]) (rows db) of
               [] \<Rightarrow> Inr None
             | row # rest \<Rightarrow>
                 (case extract_record_from_db (AList.merge row data) of
                    Inr rec \<Rightarrow> Inr (Some rec)
                  | Inl e \<Rightarrow> Inr None)))
   \<and> (\<not> list_ex (matches [(''id'', PInt i), (''status'', PStr s)]) (rows db) \<longrightarrow>
        update_one_pager_record_atomic mem_service now i ud (Some s) db = (Inr None, db))
   \<and> (map_of ud ''status'' = Some (PStr t) \<and> t \<noteq> s \<longrightarrow>
        update_one_pager_record_atomic mem_service now2 i ud2 (Some s)
            (snd (update_one_pager_record_atomic mem_service now i ud (Some s) db))
          = (Inr None, snd (update_one_pager_record_atomic mem_service now i ud (Some s) db))
        \<and> (\<forall>rec. fst (update_one_pager_record_atomic mem_service now i ud (Some s) db)
                     = Inr (Some rec) \<longrightarrow> status rec = t))"
proof -
  let ?F = "[(''id'', PInt i), (''status'', PStr s)]"
  have first: "\<exists>data.
      map_of data =
        ((map_of ud)(''excel_blob_url'' := None, ''excel_blob_path'' := None))
          (''excel_blob_info'' \<mapsto>
             spec_packing_rule (dict_get ud ''excel_blob_url'') (dict_get ud ''excel_blob_path''),
           ''updated_at'' \<mapsto> PStr now)
      \<and> snd (update_one_pager_record_atomic mem_service now i ud (Some s) db)
          = db\<lparr> rows := map (\<lambda>row. if matches ?F row
                                     then AList.merge row data else row) (rows db) \<rparr>
      \<and> fst (update_one_pager_record_atomic mem_service now i ud (Some s) db)
          = (case filter (matches ?F) (rows db) of
               [] \<Rightarrow> Inr None
             | row # rest \<Rightarrow>
                 (case extract_record_from_db (AList.merge row data) of
                    Inr rec \<Rightarrow> Inr (Some rec)
                  | Inl e \<Rightarrow> Inr None))"
    by (intro exI [of _ "update_fields now ud"] conjI)
      (simp_all only: map_of_update_fields update_atomic_store update_atomic_answer)
  have second: "update_one_pager_record_atomic mem_service now2 i ud2 (Some s)
            (snd (update_one_pager_record_atomic mem_service now i ud (Some s) db))
          = (Inr None, snd (update_one_pager_record_atomic mem_service now i ud (Some s) db))"
    if "map_of ud ''status'' = Some (PStr t)" and "t \<noteq> s"
  proof (rule update_atomic_no_hit)
    have "map_of (update_fields now ud) ''status'' = Some (PStr t)"
      using that by (simp add: map_of_update_fields)
    from no_hit_after_transition [OF this that(2), of i "rows db"]
    show "\<not> list_ex (matches ?F)
            (rows (snd (update_one_pager_record_atomic mem_service now i ud (Some s) db)))"
      by (simp add: update_atomic_store)
  qed
  have winner: "status rec = t"
    if "map_of ud ''status'' = Some (PStr t)"
      and "fst (update_one_pager_record_atomic mem_service now i ud (Some s) db)
             = Inr (Some rec)" for rec
  proof -
    from that(2) obtain row where
      "extract_record_from_db (AList.merge row (update_fields now ud)) = Inr rec"
      by (auto simp: update_atomic_answer split: list.splits sum.splits)
    from extract_status [OF this] that(1) show ?thesis
      by (simp add: map_of_merge map_of_update_fields)
  qed
  show ?thesis
    using first second winner update_atomic_no_hit [of i s db now ud]
    by (intro conjI impI allI) blast+
qed


theorem guarded_update_on_store_witness:
  "list_ex (matches [(''id'', PInt 1), (''status'', PStr ''in-progress'')]) (rows one_row_db)
   \<and> map_of [(''status'', PStr ''success'')] ''status'' = Some (PStr ''success'')
   \<and> ''success'' \<noteq> ''in-progress''
   \<and> (\<exists>rec. fst (update_one_pager_record_atomic mem_service ''2024-01-02T00:00:00'' 1
                    [(''status'', PStr ''success'')] (Some ''in-progress'') one_row_db)
                = Inr (Some rec)
             \<and> status rec = ''success'')
   \<and> update_one_pager_record_atomic mem_service ''2024-01-03T00:00:00'' 1
         [(''status'', PStr ''error'')] (Some ''in-progress'')
         (snd (update_one_pager_record_atomic mem_service ''2024-01-02T00:00:00'' 1
                 [(''status'', PStr ''success'')] (Some ''in-progress'') one_row_db))
       = (Inr None,
          snd (update_one_pager_record_atomic mem_service ''2024-01-02T00:00:00'' 1
                 [(''status'', PStr ''success'')] (Some ''in-progress'') one_row_db))
   \<and> map_of (hd (rows (snd (update_one_pager_record_atomic mem_service
           ''2024-01-02T00:00:00'' 1 [(''status'', PStr ''success'')] (Some ''in-progress'')
           one_row_db)))) ''status'' = Some (PStr ''success'')
   \<and> \<not> list_ex (matches [(''id'', PInt 1), (''status'', PStr ''in-progress'')]) (rows empty_db)
   \<and> update_one_pager_record_atomic mem_service ''2024-01-02T00:00:00'' 1
         [(''status'', PStr ''success'')] (Some ''in-progress'') empty_db
       = (Inr None, empty_db)"
proof -
  let ?row = "stored_row ''2024-01-01T00:00:01'' 1 in_progress_record"
  let ?first = "update_one_pager_record_atomic mem_service ''2024-01-02T00:00:00'' 1
                  [(''status'', PStr ''success'')] (Some ''in-progress'') one_row_db"
  note on_row = guarded_update_on_store [where ud = "[(''status'', PStr ''success'')]"
      and now = "''2024-01-02T00:00:00''" and i = 1 and s = "''in-progress''"
      and db = one_row_db and t = "''success''" and ?now2.0 = "''2024-01-03T00:00:00''"
      and ?ud2.0 = "[(''status'', PStr ''error'')]"]
  note on_empty = guarded_update_on_store [where ud = "[(''status'', PStr ''success'')]"
      and now = "''2024-01-02T00:00:00''" and i = 1 and s = "''in-progress''"
      and db = empty_db and t = "''success''" and ?now2.0 = "''2024-01-03T00:00:00''"
      and ?ud2.0 = "[(''status'', PStr ''error'')]"]
  have hit: "matches [(''id'', PInt 1), (''status'', PStr ''in-progress'')] ?row"
    by (simp add: matches_def stored_row_id stored_row_status in_progress_record_def)
  then have exists: "list_ex (matches [(''id'', PInt 1), (''status'', PStr ''in-progress'')])
      (rows one_row_db)"
    by (simp add: one_row_db_eq)
  have sets: "map_of [(''status'', PStr ''success'')] ''status'' = Some (PStr ''success'')"
    and differs: "''success'' \<noteq> ''in-progress''"
    by simp_all
  from on_row [THEN conjunct1] obtain data where
    data: "map_of data =
        ((map_of [(''status'', PStr ''success'')])
            (''excel_blob_url'' := None, ''excel_blob_path'' := None))
          (''excel_blob_info'' \<mapsto>
             spec_packing_rule (dict_get [(''status'', PStr ''success'')] ''excel_blob_url'')
               (dict_get [(''status'', PStr ''success'')] ''excel_blob_path''),
           ''updated_at'' \<mapsto> PStr ''2024-01-02T00:00:00'')"
    and store: "snd ?first
          = one_row_db\<lparr> rows := map (\<lambda>row. if matches [(''id'', PInt 1),
                                                            (''status'', PStr ''in-progress'')] row
                                     then AList.merge row data else row) (rows one_row_db) \<rparr>"
    and answer: "fst ?first
          = (case filter (matches [(''id'', PInt 1), (''status'', PStr ''in-progress'')])
                    (rows one_row_db) of
               [] \<Rightarrow> Inr None
             | row # rest \<Rightarrow>
                 (case extract_record_from_db (AList.merge row data) of
                    Inr rec \<Rightarrow> Inr (Some rec)
                  | Inl e \<Rightarrow> Inr None))"
    by blast
  have winner: "\<exists>rec. fst ?first = Inr (Some rec) \<and> status rec = ''success''"
    unfolding answer
    using hit by (simp add: one_row_db_eq extract_after_status_update [OF data])
  have loser: "update_one_pager_record_atomic mem_service ''2024-01-03T00:00:00'' 1
         [(''status'', PStr ''error'')] (Some ''in-progress'') (snd ?first)
       = (Inr None, snd ?first)"
    using on_row [THEN conjunct2, THEN conjunct2] sets differs by blast
  have final: "map_of (hd (rows (snd ?first))) ''status'' = Some (PStr ''success'')"
    unfolding store using hit by (simp add: one_row_db_eq map_of_merge data)
  have none: "\<not> list_ex (matches [(''id'', PInt 1), (''status'', PStr ''in-progress'')])
      (rows empty_db)"
    by (simp add: empty_db_def)
  have absent: "update_one_pager_record_atomic mem_service ''2024-01-02T00:00:00'' 1
         [(''status'', PStr ''success'')] (Some ''in-progress'') empty_db
       = (Inr None, empty_db)"
    using on_empty [THEN conjunct2, THEN conjunct1] none by blast
  from exists sets differs winner loser final none absent show ?thesis
    by (intro conjI)
qed

text \<open>
  C9 as stated fails: the extraction is not total over the shapes of the column. A row
  whose \<^verbatim>\<open>excel_blob_info\<close> is a string or a number gets both excel fields set to
  null, but the column itself stays in the row, the record's field
  \<^verbatim>\<open>excel_blob_info: Optional[Dict[str, Any]]\<close> does not accept it, and the constructor
  raises. The same row with a null column is extracted.
\<close>

theorem extraction_rejects_non_object_column:
  "\<not> isl (extract_record_from_db (minimal_row PNone))
   \<and> isl (extract_record_from_db (minimal_row (PStr ''n/a'')))
   \<and> isl (extract_record_from_db (minimal_row (PInt 0)))"
proof -
  have "extract_record_from_db (minimal_row PNone) =
          Inr (minimal_record\<lparr> excel_blob_url := None, excel_blob_path := None \<rparr>)"
    using new_OnePagerRecord_set_excel_pair
      [OF new_minimal_row [of PNone None], of PNone None PNone None]
    by (simp add: extract_record_from_db_other dict_get_minimal_row minimal_record_def)
  moreover have "isl (extract_record_from_db (minimal_row (PStr ''n/a'')))"
    by (rule extract_rejects_non_object [where v = "PStr ''n/a''"])
      (simp_all add: minimal_row_def)
  moreover have "isl (extract_record_from_db (minimal_row (PInt 0)))"
    by (rule extract_rejects_non_object [where v = "PInt 0"])
      (simp_all add: minimal_row_def)
  ultimately show ?thesis by simp
qed

text \<open>
  C9, amended: for every row, if \<^verbatim>\<open>excel_blob_info\<close> is null, absent, an empty object
  or no object at all, \<^verbatim>\<open>_extract_record_from_db\<close> sets both excel fields of the row to
  null before it constructs the record, so a record it returns has both null; for a
  null, absent or empty-object column it returns a record whenever the constructor
  accepts the row. If the column is a non-empty object, the two fields are what the
  object holds under the two keys, null for a key the object lacks, and a record is
  returned whenever the constructor accepts the row and the two values are strings or
  null. If the column is a non-null value that is no object, the constructor rejects the
  row and the extraction raises.
\<close>

theorem extraction_by_column_shape:
  "(\<not> truthy (dict_get row ''excel_blob_info'')
      \<or> \<not> isinstance_dict (dict_get row ''excel_blob_info'') \<longrightarrow>
      extract_record_from_db row =
        new_OnePagerRecord
          (dict_set (dict_set row ''excel_blob_url'' PNone) ''excel_blob_path'' PNone)
      \<and> (\<forall>rec. extract_record_from_db row = Inr rec \<longrightarrow>
             excel_blob_url rec = None \<and> excel_blob_path rec = None))
   \<and> ((map_of row ''excel_blob_info'' = None \<or> map_of row ''excel_blob_info'' = Some PNone
        \<or> map_of row ''excel_blob_info'' = Some (PDict []))
       \<and> new_OnePagerRecord row = Inr r0 \<longrightarrow>
       extract_record_from_db row
         = Inr (r0\<lparr> excel_blob_url := None, excel_blob_path := None \<rparr>))
   \<and> (map_of row ''excel_blob_info'' = Some (PDict d) \<and> d \<noteq> [] \<longrightarrow>
        extract_record_from_db row =
          new_OnePagerRecord
            (dict_set (dict_set row ''excel_blob_url'' (dict_get d ''excel_blob_url''))
               ''excel_blob_path'' (dict_get d ''excel_blob_path''))
        \<and> (\<forall>rec. extract_record_from_db row = Inr rec \<longrightarrow>
               dump_optional PStr (excel_blob_url rec) = dict_get d ''excel_blob_url''
               \<and> dump_optional PStr (excel_blob_path rec) = dict_get d ''excel_blob_path''
               \<and> (map_of d ''excel_blob_url'' = None \<longrightarrow> excel_blob_url rec = None)
               \<and> (map_of d ''excel_blob_path'' = None \<longrightarrow> excel_blob_path rec = None)))
   \<and> (map_of row ''excel_blob_info'' = Some (PDict d) \<and> d \<noteq> []
       \<and> new_OnePagerRecord row = Inr r0
       \<and> val_optional val_str (dict_get d ''excel_blob_url'') = Inr a
       \<and> val_optional val_str (dict_get d ''excel_blob_path'') = Inr b \<longrightarrow>
       extract_record_from_db row = Inr (r0\<lparr> excel_blob_url := a, excel_blob_path := b \<rparr>))
   \<and> (map_of row ''excel_blob_info'' = Some v \<and> v \<noteq> PNone \<and> \<not> isinstance_dict v \<longrightarrow>
        isl (extract_record_from_db row))"
proof (intro conjI impI)
  assume h: "\<not> truthy (dict_get row ''excel_blob_info'')
      \<or> \<not> isinstance_dict (dict_get row ''excel_blob_info'')"
  show "extract_record_from_db row =
        new_OnePagerRecord
          (dict_set (dict_set row ''excel_blob_url'' PNone) ''excel_blob_path'' PNone)"
    by (rule extract_record_from_db_other [OF h])
  show "\<forall>rec. extract_record_from_db row = Inr rec \<longrightarrow>
             excel_blob_url rec = None \<and> excel_blob_path rec = None"
    using extract_without_object [OF h] by blast
next
  assume h: "(map_of row ''excel_blob_info'' = None \<or> map_of row ''excel_blob_info'' = Some PNone
        \<or> map_of row ''excel_blob_info'' = Some (PDict []))
       \<and> new_OnePagerRecord row = Inr r0"
  then have "\<not> truthy (dict_get row ''excel_blob_info'')"
    by (auto simp: dict_get_def)
  then have "extract_record_from_db row =
        new_OnePagerRecord
          (dict_set (dict_set row ''excel_blob_url'' PNone) ''excel_blob_path'' PNone)"
    by (simp add: extract_record_from_db_other)
  also have "\<dots> = Inr (r0\<lparr> excel_blob_url := None, excel_blob_path := None \<rparr>)"
    using h by (intro new_OnePagerRecord_set_excel_pair) simp_all
  finally show "extract_record_from_db row
         = Inr (r0\<lparr> excel_blob_url := None, excel_blob_path := None \<rparr>)" .
next
  assume h: "map_of row ''excel_blob_info'' = Some (PDict d) \<and> d \<noteq> []"
  then have get: "dict_get row ''excel_blob_info'' = PDict d" and d: "d \<noteq> []"
    by (simp_all add: dict_get_def)
  show "extract_record_from_db row =
          new_OnePagerRecord
            (dict_set (dict_set row ''excel_blob_url'' (dict_get d ''excel_blob_url''))
               ''excel_blob_path'' (dict_get d ''excel_blob_path''))"
    by (rule extract_record_from_db_object [OF get d])
  show "\<forall>rec. extract_record_from_db row = Inr rec \<longrightarrow>
               dump_optional PStr (excel_blob_url rec) = dict_get d ''excel_blob_url''
               \<and> dump_optional PStr (excel_blob_path rec) = dict_get d ''excel_blob_path''
               \<and> (map_of d ''excel_blob_url'' = None \<longrightarrow> excel_blob_url rec = None)
               \<and> (map_of d ''excel_blob_path'' = None \<longrightarrow> excel_blob_path rec = None)"
  proof (intro allI impI)
    fix rec
    assume "extract_record_from_db row = Inr rec"
    from extract_with_object [OF get d this]
    show "dump_optional PStr (excel_blob_url rec) = dict_get d ''excel_blob_url''
               \<and> dump_optional PStr (excel_blob_path rec) = dict_get d ''excel_blob_path''
               \<and> (map_of d ''excel_blob_url'' = None \<longrightarrow> excel_blob_url rec = None)
               \<and> (map_of d ''excel_blob_path'' = None \<longrightarrow> excel_blob_path rec = None)"
      by (auto simp: dict_get_def dump_optional_def split: option.splits)
  qed
next
  assume h: "map_of row ''excel_blob_info'' = Some (PDict d) \<and> d \<noteq> []
       \<and> new_OnePagerRecord row = Inr r0
       \<and> val_optional val_str (dict_get d ''excel_blob_url'') = Inr a
       \<and> val_optional val_str (dict_get d ''excel_blob_path'') = Inr b"
  then have get: "dict_get row ''excel_blob_info'' = PDict d" and d: "d \<noteq> []"
    by (simp_all add: dict_get_def)
  show "extract_record_from_db row = Inr (r0\<lparr> excel_blob_url := a, excel_blob_path := b \<rparr>)"
    unfolding extract_record_from_db_object [OF get d]
    using h by (intro new_OnePagerRecord_set_excel_pair) simp_all
next
  assume "map_of row ''excel_blob_info'' = Some v \<and> v \<noteq> PNone \<and> \<not> isinstance_dict v"
  then show "isl (extract_record_from_db row)"
    by (intro extract_rejects_non_object [where v = v]) simp_all
qed

theorem extraction_by_column_shape_witness:
  "map_of (minimal_row PNone) ''excel_blob_info'' = Some PNone
   \<and> new_OnePagerRecord (minimal_row PNone) = Inr minimal_record
   \<and> extract_record_from_db (minimal_row PNone) = Inr minimal_record
   \<and> excel_blob_url minimal_record = None \<and> excel_blob_path minimal_record = None
   \<and> map_of (minimal_row (PDict [(''excel_blob_url'', PStr ''u'')])) ''excel_blob_info''
        = Some (PDict [(''excel_blob_url'', PStr ''u'')])
   \<and> [(''excel_blob_url'', PStr ''u'')] \<noteq> []
   \<and> extract_record_from_db (minimal_row (PDict [(''excel_blob_url'', PStr ''u'')]))
        = Inr (minimal_record\<lparr> excel_blob_info := Some [(''excel_blob_url'', PStr ''u'')],
                               excel_blob_url := Some ''u'', excel_blob_path := None \<rparr>)
   \<and> map_of (minimal_row (PStr ''n/a'')) ''excel_blob_info'' = Some (PStr ''n/a'')
   \<and> PStr ''n/a'' \<noteq> PNone \<and> \<not> isinstance_dict (PStr ''n/a'')
   \<and> isl (extract_record_from_db (minimal_row (PStr ''n/a'')))"
proof -
  have null: "map_of (minimal_row PNone) ''excel_blob_info'' = Some PNone"
    and object: "map_of (minimal_row (PDict [(''excel_blob_url'', PStr ''u'')]))
        ''excel_blob_info'' = Some (PDict [(''excel_blob_url'', PStr ''u'')])"
    and string: "map_of (minimal_row (PStr ''n/a'')) ''excel_blob_info'' = Some (PStr ''n/a'')"
    by (simp_all add: minimal_row_def)
  have new_null: "new_OnePagerRecord (minimal_row PNone) = Inr minimal_record"
    using new_minimal_row [of PNone None] by (simp add: minimal_record_def)
  have new_object: "new_OnePagerRecord (minimal_row (PDict [(''excel_blob_url'', PStr ''u'')]))
      = Inr (minimal_record\<lparr> excel_blob_info := Some [(''excel_blob_url'', PStr ''u'')] \<rparr>)"
    using new_minimal_row [of "PDict [(''excel_blob_url'', PStr ''u'')]"
        "Some [(''excel_blob_url'', PStr ''u'')]"] by simp
  have a: "extract_record_from_db (minimal_row PNone) = Inr minimal_record"
    using extraction_by_column_shape [where row = "minimal_row PNone" and ?r0.0 = minimal_record
        and d = "[]" and a = None and b = None and v = PNone,
        THEN conjunct2, THEN conjunct1] null new_null
    by (simp add: minimal_record_def)
  have b: "extract_record_from_db (minimal_row (PDict [(''excel_blob_url'', PStr ''u'')]))
        = Inr (minimal_record\<lparr> excel_blob_info := Some [(''excel_blob_url'', PStr ''u'')],
                               excel_blob_url := Some ''u'', excel_blob_path := None \<rparr>)"
    using extraction_by_column_shape
        [where row = "minimal_row (PDict [(''excel_blob_url'', PStr ''u'')])"
          and ?r0.0 = "minimal_record\<lparr> excel_blob_info := Some [(''excel_blob_url'', PStr ''u'')] \<rparr>"
          and d = "[(''excel_blob_url'', PStr ''u'')]" and a = "Some ''u''" and b = None
          and v = PNone,
        THEN conjunct2, THEN conjunct2, THEN conjunct2, THEN conjunct1] object new_object
    by (simp add: dict_get_def)
  have c: "isl (extract_record_from_db (minimal_row (PStr ''n/a'')))"
    using extraction_by_column_shape [where row = "minimal_row (PStr ''n/a'')"
        and ?r0.0 = minimal_record and d = "[]" and a = None and b = None
        and v = "PStr ''n/a''",
        THEN conjunct2, THEN conjunct2, THEN conjunct2, THEN conjunct2] string
    by simp
  from null new_null a object b string c show ?thesis
    by (simp add: minimal_record_def)
qed

text \<open>
  C3 as stated fails in two places. An empty member of the pair is stored as the empty
  string it was supplied as, not as null: the record of the test script with
  \<^verbatim>\<open>excel_blob_path = ""\<close> is written with the object
  \<^verbatim>\<open>{excel_blob_url: "https://...", excel_blob_path: ""}\<close> and reads back with the
  empty string. And on the update paths a supplied value need not be a string: the field
  set \<^verbatim>\<open>{'excel_blob_url': 5}\<close> is stored as \<^verbatim>\<open>{excel_blob_url: 5, excel_blob_path:
  null}\<close>, and a row holding that object does not read back: the constructor of the
  record raises.
\<close>

theorem empty_excel_field_is_stored_as_supplied:
  "map_of (written (hd (snd (create_one_pager_record (recording_service (Inr []))
             ''2024-01-01T00:00:01'' (test_record\<lparr> excel_blob_path := Some [] \<rparr>) []))))
      ''excel_blob_info''
     = Some (PDict [(''excel_blob_url'', PStr ''https://example.com/test_data.xlsx''),
                    (''excel_blob_path'', PStr [])])
   \<and> PDict [(''excel_blob_url'', PStr ''https://example.com/test_data.xlsx''),
             (''excel_blob_path'', PStr [])]
       \<noteq> PDict [(''excel_blob_url'', PStr ''https://example.com/test_data.xlsx''),
                 (''excel_blob_path'', PNone)]
   \<and> fst (create_one_pager_record mem_service ''2024-01-01T00:00:01''
            (test_record\<lparr> excel_blob_path := Some [] \<rparr>) empty_db)
       = Inr (Some (persisted ''2024-01-01T00:00:01'' 1
                      (test_record\<lparr> excel_blob_path := Some [] \<rparr>)))
   \<and> excel_blob_path (persisted ''2024-01-01T00:00:01'' 1
                         (test_record\<lparr> excel_blob_path := Some [] \<rparr>)) = Some []
   \<and> map_of (written (hd (snd (update_one_pager_record (recording_service (Inr []))
             ''2024-01-02T00:00:00'' 1 [(''excel_blob_url'', PInt 5)] []))))
        ''excel_blob_info''
       = Some (PDict [(''excel_blob_url'', PInt 5), (''excel_blob_path'', PNone)])
   \<and> isl (extract_record_from_db
            (minimal_row (PDict [(''excel_blob_url'', PInt 5), (''excel_blob_path'', PNone)])))"
proof -
  let ?r = "test_record\<lparr> excel_blob_path := Some [] \<rparr>"
  have sent: "map_of (written (hd (snd (create_one_pager_record (recording_service (Inr []))
             ''2024-01-01T00:00:01'' ?r [])))) ''excel_blob_info''
     = Some (PDict [(''excel_blob_url'', PStr ''https://example.com/test_data.xlsx''),
                    (''excel_blob_path'', PStr [])])"
    unfolding written_create_recorded prepare_info
    by (simp add: spec_packing_rule_def dump_optional_def test_record_def)
  have readback: "fst (create_one_pager_record mem_service ''2024-01-01T00:00:01'' ?r empty_db)
       = Inr (Some (persisted ''2024-01-01T00:00:01'' 1 ?r))"
    by (simp add: create_on_mem_store empty_db_def)
  have kept: "excel_blob_path (persisted ''2024-01-01T00:00:01'' 1 ?r) = Some []"
    by (simp add: persisted_def dump_optional_def test_record_def)
  have upd: "map_of (written (hd (snd (update_one_pager_record (recording_service (Inr []))
             ''2024-01-02T00:00:00'' 1 [(''excel_blob_url'', PInt 5)] []))))
        ''excel_blob_info''
       = Some (PDict [(''excel_blob_url'', PInt 5), (''excel_blob_path'', PNone)])"
    by (simp add: written_update_recorded update_fields_info spec_packing_rule_def
        dict_get_def)
  have rej: "isl (extract_record_from_db
            (minimal_row (PDict [(''excel_blob_url'', PInt 5), (''excel_blob_path'', PNone)])))"
  proof (rule extract_rejects_non_string_url [where v = "PInt 5"
          and d = "[(''excel_blob_url'', PInt 5), (''excel_blob_path'', PNone)]"])
    show "dict_get (minimal_row (PDict [(''excel_blob_url'', PInt 5),
                                         (''excel_blob_path'', PNone)])) ''excel_blob_info''
            = PDict [(''excel_blob_url'', PInt 5), (''excel_blob_path'', PNone)]"
      by (rule dict_get_minimal_row)
    show "dict_get [(''excel_blob_url'', PInt 5), (''excel_blob_path'', PNone)]
            ''excel_blob_url'' = PInt 5"
      by (simp add: dict_get_def)
  qed simp_all
  from sent readback kept upd rej show ?thesis by simp
qed

text \<open>
  C3, amended: on every write, if at least one of \<^verbatim>\<open>excel_blob_url\<close> and
  \<^verbatim>\<open>excel_blob_path\<close> is supplied non-empty, the \<^verbatim>\<open>excel_blob_info\<close> sent to the
  store is the two-key object holding both values as they were supplied, null for a
  missing one and the empty value itself for an empty one; otherwise it is null. A record
  read back from a row holding such an object has the two stored values in its two
  fields, and a record read back from a row holding null there has both fields null. On
  the reference store a creation is never rejected for a partial pair: it returns a
  record with the pair as supplied when one of the two is non-empty, and with both fields
  null otherwise.
\<close>

theorem excel_pair_is_stored_as_supplied:
  "(\<exists>data.
      snd (create_one_pager_record (recording_service response) now r sent)
        = sent @ [table_q ''one_pager_reports'' (Insert data)]
      \<and> (truthy (dump_optional PStr (excel_blob_url r))
           \<or> truthy (dump_optional PStr (excel_blob_path r)) \<longrightarrow>
           map_of data ''excel_blob_info'' =
             Some (PDict [(''excel_blob_url'', dump_optional PStr (excel_blob_url r)),
                          (''excel_blob_path'', dump_optional PStr (excel_blob_path r))]))
      \<and> (\<not> truthy (dump_optional PStr (excel_blob_url r))
           \<and> \<not> truthy (dump_optional PStr (excel_blob_path r)) \<longrightarrow>
           map_of data ''excel_blob_info'' = Some PNone))
   \<and> (\<exists>data.
        snd (update_one_pager_record (recording_service response) now i ud sent)
          = sent @ [eq_q (table_q ''one_pager_reports'' (Update data)) ''id'' (PInt i)]
        \<and> snd (update_one_pager_record_atomic (recording_service response) now i ud expected
                 sent)
          = sent @ [case expected of
                      None \<Rightarrow> eq_q (table_q ''one_pager_reports'' (Update data)) ''id'' (PInt i)
                    | Some s \<Rightarrow>
                        eq_q (eq_q (table_q ''one_pager_reports'' (Update data)) ''id'' (PInt i))
                          ''status'' (PStr s)]
        \<and> (truthy (dict_get ud ''excel_blob_url'') \<or> truthy (dict_get ud ''excel_blob_path'')
             \<longrightarrow>
             map_of data ''excel_blob_info'' =
               Some (PDict [(''excel_blob_url'', dict_get ud ''excel_blob_url''),
                            (''excel_blob_path'', dict_get ud ''excel_blob_path'')]))
        \<and> (\<not> truthy (dict_get ud ''excel_blob_url'')
             \<and> \<not> truthy (dict_get ud ''excel_blob_path'') \<longrightarrow>
             map_of data ''excel_blob_info'' = Some PNone))
   \<and> (\<forall>row u p rec.
         map_of row ''excel_blob_info''
           = Some (PDict [(''excel_blob_url'', u), (''excel_blob_path'', p)])
         \<and> extract_record_from_db row = Inr rec \<longrightarrow>
         dump_optional PStr (excel_blob_url rec) = u
         \<and> dump_optional PStr (excel_blob_path rec) = p)
   \<and> (\<forall>row rec.
         map_of row ''excel_blob_info'' = Some PNone \<and> extract_record_from_db row = Inr rec
         \<longrightarrow> excel_blob_url rec = None \<and> excel_blob_path rec = None)
   \<and> (\<exists>created db'.
        create_one_pager_record mem_service now r db = (Inr (Some created), db')
        \<and> (truthy (dump_optional PStr (excel_blob_url r))
             \<or> truthy (dump_optional PStr (excel_blob_path r)) \<longrightarrow>
             excel_blob_url created = excel_blob_url r
             \<and> excel_blob_path created = excel_blob_path r)
        \<and> (\<not> truthy (dump_optional PStr (excel_blob_url r))
             \<and> \<not> truthy (dump_optional PStr (excel_blob_path r)) \<longrightarrow>
             excel_blob_url created = None \<and> excel_blob_path created = None))"
proof -
  have c: "\<exists>data.
      snd (create_one_pager_record (recording_service response) now r sent)
        = sent @ [table_q ''one_pager_reports'' (Insert data)]
      \<and> (truthy (dump_optional PStr (excel_blob_url r))
           \<or> truthy (dump_optional PStr (excel_blob_path r)) \<longrightarrow>
           map_of data ''excel_blob_info'' =
             Some (PDict [(''excel_blob_url'', dump_optional PStr (excel_blob_url r)),
                          (''excel_blob_path'', dump_optional PStr (excel_blob_path r))]))
      \<and> (\<not> truthy (dump_optional PStr (excel_blob_url r))
           \<and> \<not> truthy (dump_optional PStr (excel_blob_path r)) \<longrightarrow>
           map_of data ''excel_blob_info'' = Some PNone)"
    by (intro exI [of _ "prepare_record_for_db r @
           [(''created_at'', PStr now), (''updated_at'', PStr now)]"] conjI impI)
      (simp_all only: create_recorded prepare_info spec_packing_rule_def if_True if_False
        simp_thms)
  have u: "\<exists>data.
        snd (update_one_pager_record (recording_service response) now i ud sent)
          = sent @ [eq_q (table_q ''one_pager_reports'' (Update data)) ''id'' (PInt i)]
        \<and> snd (update_one_pager_record_atomic (recording_service response) now i ud expected
                 sent)
          = sent @ [case expected of
                      None \<Rightarrow> eq_q (table_q ''one_pager_reports'' (Update data)) ''id'' (PInt i)
                    | Some s \<Rightarrow>
                        eq_q (eq_q (table_q ''one_pager_reports'' (Update data)) ''id'' (PInt i))
                          ''status'' (PStr s)]
        \<and> (truthy (dict_get ud ''excel_blob_url'') \<or> truthy (dict_get ud ''excel_blob_path'')
             \<longrightarrow>
             map_of data ''excel_blob_info'' =
               Some (PDict [(''excel_blob_url'', dict_get ud ''excel_blob_url''),
                            (''excel_blob_path'', dict_get ud ''excel_blob_path'')]))
        \<and> (\<not> truthy (dict_get ud ''excel_blob_url'')
             \<and> \<not> truthy (dict_get ud ''excel_blob_path'') \<longrightarrow>
             map_of data ''excel_blob_info'' = Some PNone)"
    by (intro exI [of _ "update_fields now ud"])
      (simp add: update_recorded update_atomic_recorded update_fields_info
        spec_packing_rule_def)
  have rb: "\<forall>row u p rec.
         map_of row ''excel_blob_info''
           = Some (PDict [(''excel_blob_url'', u), (''excel_blob_path'', p)])
         \<and> extract_record_from_db row = Inr rec \<longrightarrow>
         dump_optional PStr (excel_blob_url rec) = u
         \<and> dump_optional PStr (excel_blob_path rec) = p"
  proof (intro allI impI)
    fix row u p rec
    assume h: "map_of row ''excel_blob_info''
           = Some (PDict [(''excel_blob_url'', u), (''excel_blob_path'', p)])
         \<and> extract_record_from_db row = Inr rec"
    then have get: "dict_get row ''excel_blob_info''
        = PDict [(''excel_blob_url'', u), (''excel_blob_path'', p)]"
      by (simp add: dict_get_def)
    from extract_with_object [OF get _ conjunct2 [OF h]]
    show "dump_optional PStr (excel_blob_url rec) = u
         \<and> dump_optional PStr (excel_blob_path rec) = p"
      by (simp add: dict_get_def)
  qed
  have rn: "\<forall>row rec.
         map_of row ''excel_blob_info'' = Some PNone \<and> extract_record_from_db row = Inr rec
         \<longrightarrow> excel_blob_url rec = None \<and> excel_blob_path rec = None"
  proof (intro allI impI)
    fix row rec
    assume h: "map_of row ''excel_blob_info'' = Some PNone
      \<and> extract_record_from_db row = Inr rec"
    then have "dict_get row ''excel_blob_info'' = PNone"
      by (simp add: dict_get_def)
    from extract_without_info [OF this conjunct2 [OF h]]
    show "excel_blob_url rec = None \<and> excel_blob_path rec = None" .
  qed
  have m: "\<exists>created db'.
        create_one_pager_record mem_service now r db = (Inr (Some created), db')
        \<and> (truthy (dump_optional PStr (excel_blob_url r))
             \<or> truthy (dump_optional PStr (excel_blob_path r)) \<longrightarrow>
             excel_blob_url created = excel_blob_url r
             \<and> excel_blob_path created = excel_blob_path r)
        \<and> (\<not> truthy (dump_optional PStr (excel_blob_url r))
             \<and> \<not> truthy (dump_optional PStr (excel_blob_path r)) \<longrightarrow>
             excel_blob_url created = None \<and> excel_blob_path created = None)"
    by (simp add: create_on_mem_store persisted_def)
  from c u rb rn m show ?thesis by (intro conjI)
qed

theorem excel_pair_is_stored_as_supplied_witness:
  "truthy (dump_optional PStr (excel_blob_url (test_record\<lparr> excel_blob_path := None \<rparr>)))
   \<and> map_of (written (hd (snd (create_one_pager_record (recording_service (Inr []))
               ''2024-01-01T00:00:01'' (test_record\<lparr> excel_blob_path := None \<rparr>) []))))
        ''excel_blob_info''
       = Some (PDict [(''excel_blob_url'', PStr ''https://example.com/test_data.xlsx''),
                      (''excel_blob_path'', PNone)])
   \<and> (\<exists>created db'.
        create_one_pager_record mem_service ''2024-01-01T00:00:01''
            (test_record\<lparr> excel_blob_path := None \<rparr>) empty_db
          = (Inr (Some created), db')
        \<and> excel_blob_url created = Some ''https://example.com/test_data.xlsx''
        \<and> excel_blob_path created = None)"
proof -
  let ?r = "test_record\<lparr> excel_blob_path := None \<rparr>"
  note inst = excel_pair_is_stored_as_supplied [where response = "Inr []"
      and now = "''2024-01-01T00:00:01''" and r = ?r and sent = "[]" and i = 1 and ud = "[]"
      and expected = None and db = empty_db]
  have supplied: "truthy (dump_optional PStr (excel_blob_url ?r))"
    and url: "dump_optional PStr (excel_blob_url ?r) = PStr ''https://example.com/test_data.xlsx''"
    and path: "dump_optional PStr (excel_blob_path ?r) = PNone"
    and fields: "excel_blob_url ?r = Some ''https://example.com/test_data.xlsx''"
      "excel_blob_path ?r = None"
    by (simp_all add: test_record_def dump_optional_def)
  from inst [THEN conjunct1] obtain data where
    "snd (create_one_pager_record (recording_service (Inr [])) ''2024-01-01T00:00:01'' ?r [])
        = [] @ [table_q ''one_pager_reports'' (Insert data)]"
    and "truthy (dump_optional PStr (excel_blob_url ?r))
           \<or> truthy (dump_optional PStr (excel_blob_path ?r)) \<longrightarrow>
           map_of data ''excel_blob_info'' =
             Some (PDict [(''excel_blob_url'', dump_optional PStr (excel_blob_url ?r)),
                          (''excel_blob_path'', dump_optional PStr (excel_blob_path ?r))])"
    by blast
  with supplied have sent: "map_of (written (hd (snd (create_one_pager_record
      (recording_service (Inr [])) ''2024-01-01T00:00:01'' ?r [])))) ''excel_blob_info''
       = Some (PDict [(''excel_blob_url'', PStr ''https://example.com/test_data.xlsx''),
                      (''excel_blob_path'', PNone)])"
    by (simp add: written_def table_q_def test_record_def dump_optional_def)
  from inst [THEN conjunct2, THEN conjunct2, THEN conjunct2, THEN conjunct2] supplied
  have made: "\<exists>created db'.
        create_one_pager_record mem_service ''2024-01-01T00:00:01'' ?r empty_db
          = (Inr (Some created), db')
        \<and> excel_blob_url created = Some ''https://example.com/test_data.xlsx''
        \<and> excel_blob_path created = None"
    unfolding fields by blast
  from supplied sent made show ?thesis by (intro conjI)
qed





end
